theory Spec2Isabelle
  imports Complex_Main
begin

section \<open>The token form\<close>

text \<open>
  The contract-source generator of the token builder is the function
  \<^verbatim>\<open>generateContractPreview\<close> of \<^verbatim>\<open>src/components/tokens/TokenBuilder.tsx\<close>
  (lines 704-941). It reads the component state \<^verbatim>\<open>tokenForm\<close> (lines 330-357) and
  returns one string. The state is modelled as nested records with the field names of
  the source.

  Strings are lists of 8-bit characters: the model covers the code units below 256 of a
  JavaScript string. The integral numbers of the form (\<^verbatim>\<open>decimals\<close>,
  \<^verbatim>\<open>totalSupply\<close>, \<^verbatim>\<open>conversionRate\<close>, a tranche's \<^verbatim>\<open>id\<close> and
  \<^verbatim>\<open>value\<close>; the inputs that set them go through \<^verbatim>\<open>parseInt(...) || 0\<close>) are
  mathematical integers, and their text in a template literal is their decimal digits,
  which is the text of the JavaScript number for every safe integer (magnitude at most
  \<open>2^53\<close>). \<^verbatim>\<open>totalSupply\<close> is optional: the form that \<^verbatim>\<open>handleSelectToken\<close> sets
  (lines 411-426) has no such field, and reading it gives \<^verbatim>\<open>undefined\<close>.

  A tranche's \<^verbatim>\<open>interestRate\<close> is set through \<^verbatim>\<open>parseFloat\<close> (line 1603): it is a
  finite double, kept here as the rational number it denotes. Arithmetic on numbers
  (the product of line 862, the quotient of lines 850-851, the sum of line 1649) is
  the exact operation followed by rounding to the nearest double, \<open>roundToDouble\<close>.
  \<^verbatim>\<open>handleInputChange\<close> (lines 532-537) stores the text of an edited \<^verbatim>\<open>decimals\<close>
  input; a template literal renders that text as it renders the number, and the model
  takes the declared type of the state.

  The fields \<^verbatim>\<open>id\<close>, \<^verbatim>\<open>name\<close> and \<^verbatim>\<open>value\<close> of a tranche are \<open>tranche_id\<close>,
  \<open>tranche_name\<close> and \<open>tranche_value\<close> here: \<open>id\<close> is a constant of HOL,
  \<open>name\<close> is the field of the form, and \<open>value\<close> is a keyword of Isabelle.
\<close>

record tranche =
  tranche_id :: int
  tranche_name :: string
  tranche_value :: int
  interestRate :: rat

record token_blocks =
  compliance :: "string list"
  features :: "string list"
  governance :: "string list"

record token_metadata =
  description :: string
  category :: string
  product :: string
  issuanceDate :: string
  maturityDate :: string
  tranches :: "tranche list"
  whitelistEnabled :: bool
  jurisdictionRestrictions :: "string list"
  conversionRate :: int

record tokenForm =
  name :: string
  symbol :: string
  decimals :: int
  standard :: string
  totalSupply :: "int option"
  blocks :: token_blocks
  metadata :: token_metadata

text \<open>
  \<^verbatim>\<open>TOKEN_STANDARDS\<close> (lines 91-98): the standards the selector of the form offers,
  as (value, label) pairs.
\<close>

definition TOKEN_STANDARDS :: "(string \<times> string) list" where
  "TOKEN_STANDARDS =
    [(''ERC-20'', ''ERC-20 (Fungible Token)''),
     (''ERC-721'', ''ERC-721 (Non-Fungible Token)''),
     (''ERC-1155'', ''ERC-1155 (Multi Token)''),
     (''ERC-1400'', ''ERC-1400 (Security Token)''),
     (''ERC-3525'', ''ERC-3525 (Semi-Fungible Token)''),
     (''ERC-4626'', ''ERC-4626 (Tokenized Vault)'')]"

section \<open>Numbers\<close>

text \<open>
  A JavaScript number that arithmetic on finite doubles can give: a finite double, as
  the rational number it denotes, or an infinity.
\<close>

datatype jsNumber = Finite rat | PlusInfinity | MinusInfinity

text \<open>
  The binary exponent of a positive rational \<open>x\<close>: the \<open>e\<close> with
  \<open>2^e \<le> x < 2^(e+1)\<close>, found by halving down to below 2 or doubling up to 1.
\<close>

function halvings :: "rat \<Rightarrow> nat" where
  "halvings x = (if x < 2 then 0 else Suc (halvings (x / 2)))"
  by pat_completeness auto
termination
proof (relation "measure (\<lambda>x. nat \<lfloor>x\<rfloor>)")
  show "wf (measure (\<lambda>x. nat \<lfloor>x\<rfloor>))" by simp
next
  fix x :: rat
  assume "\<not> x < 2"
  then have pos: "1 \<le> \<lfloor>x\<rfloor>" by linarith
  then have "(1::rat) \<le> of_int \<lfloor>x\<rfloor>" by linarith
  moreover have "x < of_int \<lfloor>x\<rfloor> + 1" by linarith
  ultimately have "x / 2 < of_int \<lfloor>x\<rfloor>" by linarith
  then have "\<lfloor>x / 2\<rfloor> < \<lfloor>x\<rfloor>" by (simp add: floor_less_iff)
  with pos show "(x / 2, x) \<in> measure (\<lambda>x. nat \<lfloor>x\<rfloor>)" by simp
qed

function doublings :: "rat \<Rightarrow> nat" where
  "doublings x = (if 1 \<le> x \<or> x \<le> 0 then 0 else Suc (doublings (2 * x)))"
  by pat_completeness auto
termination
proof (relation "measure (\<lambda>x. nat \<lfloor>1 / x\<rfloor>)")
  show "wf (measure (\<lambda>x. nat \<lfloor>1 / x\<rfloor>))" by simp
next
  fix x :: rat
  assume "\<not> (1 \<le> x \<or> x \<le> 0)"
  then have one: "1 < 1 / x" by simp
  define y where "y = 1 / x"
  have pos: "1 \<le> \<lfloor>y\<rfloor>" using one unfolding y_def by linarith
  then have "(1::rat) \<le> of_int \<lfloor>y\<rfloor>" by linarith
  moreover have "y < of_int \<lfloor>y\<rfloor> + 1" by linarith
  ultimately have "y / 2 < of_int \<lfloor>y\<rfloor>" by linarith
  then have "\<lfloor>y / 2\<rfloor> < \<lfloor>y\<rfloor>" by (simp add: floor_less_iff)
  moreover have "y / 2 = 1 / (2 * x)" by (simp add: y_def)
  ultimately have "\<lfloor>1 / (2 * x)\<rfloor> < \<lfloor>1 / x\<rfloor>" by (simp only: y_def)
  with pos show "(2 * x, x) \<in> measure (\<lambda>x. nat \<lfloor>1 / x\<rfloor>)" by (simp add: y_def)
qed

declare halvings.simps [simp del] doublings.simps [simp del]

definition binaryExponent :: "rat \<Rightarrow> int" where
  "binaryExponent x = (if 1 \<le> x then int (halvings x) else - int (doublings x))"

definition pow2 :: "int \<Rightarrow> rat" where
  "pow2 k = (if 0 \<le> k then 2 ^ nat k else 1 / 2 ^ nat (- k))"

definition roundHalfEven :: "rat \<Rightarrow> int" where
  "roundHalfEven q =
     (let n = \<lfloor>q\<rfloor>; r = q - of_int n
      in if r < 1 / 2 then n else if 1 / 2 < r then n + 1 else if even n then n else n + 1)"

text \<open>
  Rounding to the nearest double (IEEE 754 binary64, ties to even): the significand
  has 53 bits, so the unit in the last place of a number with binary exponent \<open>e\<close> is
  \<open>2^(e-52)\<close>, and \<open>2^(-1074)\<close> for the subnormal numbers below \<open>2^(-1022)\<close>; a result of
  magnitude \<open>2^1024\<close> or more is an infinity.
\<close>

definition roundToDouble :: "rat \<Rightarrow> jsNumber" where
  "roundToDouble y =
     (if y = 0 then Finite 0
      else
        (let a = \<bar>y\<bar>;
             e = max (binaryExponent a) (- 1022);
             ulp = pow2 (e - 52);
             r = of_int (roundHalfEven (a / ulp)) * ulp
         in if pow2 1024 \<le> r then (if y < 0 then MinusInfinity else PlusInfinity)
            else Finite (if y < 0 then - r else r)))"

text \<open>\<^verbatim>\<open>sum + t.value\<close> (line 1649): the sum of a number and a finite double.\<close>

fun addDouble :: "jsNumber \<Rightarrow> rat \<Rightarrow> jsNumber" where
  "addDouble (Finite a) b = roundToDouble (a + b)"
| "addDouble PlusInfinity b = PlusInfinity"
| "addDouble MinusInfinity b = MinusInfinity"

section \<open>What the JavaScript runtime provides\<close>

text \<open>
  Library functions and state that the component reads and that are not code of the
  repository; they are parameters of the model:
  \<^item> \<open>dateGetTime s\<close> is \<^verbatim>\<open>new Date(s).getTime()\<close>: the milliseconds since the epoch,
    or \<open>None\<close> for an invalid date (\<^verbatim>\<open>NaN\<close>);
  \<^item> \<open>otherNumberToString x\<close> is the text, in a template literal, of a finite number
    that is not a safe integer;
  \<^item> \<open>toLocaleString x\<close> is \<^verbatim>\<open>x.toLocaleString()\<close>, which depends on the locale;
  \<^item> \<open>currentTime\<close> is the clock that \<^verbatim>\<open>new Date()\<close> reads, in milliseconds, and
    \<open>toISOString\<close> is \<^verbatim>\<open>Date.prototype.toISOString\<close> (lines 590, 630).
\<close>

record runtime =
  dateGetTime :: "string \<Rightarrow> int option"
  otherNumberToString :: "rat \<Rightarrow> string"
  toLocaleString :: "jsNumber \<Rightarrow> string"
  currentTime :: int
  toISOString :: "int \<Rightarrow> string"

text \<open>The text of an integral number in a template literal: decimal digits, a sign.\<close>

definition decimalDigits :: string where
  "decimalDigits = ''0123456789''"

definition digitChar :: "nat \<Rightarrow> char" where
  "digitChar d = decimalDigits ! (d mod 10)"

fun natToString :: "nat \<Rightarrow> string" where
  "natToString n =
     (if n < 10 then [digitChar n] else natToString (n div 10) @ [digitChar (n mod 10)])"

declare natToString.simps [simp del]

definition intToString :: "int \<Rightarrow> string" where
  "intToString i = (if i < 0 then ''-'' @ natToString (nat (- i)) else natToString (nat i))"

text \<open>\<^verbatim>\<open>${totalSupply}\<close>: the digits of the number, or \<^verbatim>\<open>undefined\<close>.\<close>

definition optionalIntToString :: "int option \<Rightarrow> string" where
  "optionalIntToString v = (case v of None \<Rightarrow> ''undefined'' | Some n \<Rightarrow> intToString n)"

text \<open>
  The text of a number in a template literal: the decimal digits of a safe integer,
  \<^verbatim>\<open>Infinity\<close> with its sign, and the runtime's text for every other number.
\<close>

fun numberToString :: "runtime \<Rightarrow> jsNumber \<Rightarrow> string" where
  "numberToString rt (Finite x) =
     (if of_int \<lfloor>x\<rfloor> = x \<and> \<bar>x\<bar> \<le> 2 ^ 53 then intToString \<lfloor>x\<rfloor>
      else otherNumberToString rt x)"
| "numberToString rt PlusInfinity = ''Infinity''"
| "numberToString rt MinusInfinity = ''-Infinity''"

text \<open>
  \<^verbatim>\<open>${new Date(d).getTime() / 1000}\<close> (lines 850-851): the seconds since the epoch,
  as text.
\<close>

definition epochSeconds :: "runtime \<Rightarrow> string \<Rightarrow> string" where
  "epochSeconds rt d =
     (case dateGetTime rt d of
        None \<Rightarrow> ''NaN''
      | Some ms \<Rightarrow> numberToString rt (roundToDouble (of_int ms / 1000)))"

text \<open>
  \<^verbatim>\<open>Array.prototype.join\<close>: the elements with the separator between them, the empty
  string for the empty array.
\<close>

fun join :: "string \<Rightarrow> string list \<Rightarrow> string" where
  "join sep [] = []"
| "join sep [x] = x"
| "join sep (x # y # ys) = x @ sep @ join sep (y # ys)"

text \<open>
  \<^verbatim>\<open>name.replace(/\s+/g, "")\<close> (lines 716, 759, 823): every maximal run of white
  space is replaced by the empty string. \<open>isSpace\<close> is the class \<^verbatim>\<open>\s\<close> among the
  code units below 256: TAB, LF, VT, FF, CR, SPACE and the no-break space.
\<close>

definition isSpace :: "char \<Rightarrow> bool" where
  "isSpace c =
     (c = CHR 0x09 \<or> c = CHR 0x0A \<or> c = CHR 0x0B \<or> c = CHR 0x0C \<or> c = CHR 0x0D \<or>
      c = CHR 0x20 \<or> c = CHR 0xA0)"

function removeWhitespace :: "string \<Rightarrow> string" where
  "removeWhitespace [] = []"
| "removeWhitespace (c # cs) =
     (if isSpace c then removeWhitespace (dropWhile isSpace cs)
      else c # removeWhitespace cs)"
  by pat_completeness auto
termination
  by (relation "measure length") (simp_all add: le_imp_less_Suc length_dropWhile_le)

section \<open>The templates of the generator\<close>

text \<open>
  Each definition below is one template literal of \<^verbatim>\<open>generateContractPreview\<close>, one
  string per source line, with every \<^verbatim>\<open>${...}\<close> replaced by the term that computes
  it. The first six lines of the ERC-20 template (lines 710-715) and of the ERC-1400
  template (lines 753-758) are the same text, \<open>erc20Imports\<close>; the ERC-3525 template
  starts with \<open>erc3525Imports\<close> (lines 817-822).
\<close>

definition erc20Imports :: string where
  \<open>erc20Imports =
     ''// SPDX-License-Identifier: MIT\<newline>'' @
     ''pragma solidity ^0.8.0;\<newline>'' @
     ''\<newline>'' @
     ''import "@openzeppelin/contracts/token/ERC20/ERC20.sol";\<newline>'' @
     ''import "@openzeppelin/contracts/access/Ownable.sol";\<newline>'' @
     ''\<newline>''\<close>

definition erc3525Imports :: string where
  \<open>erc3525Imports =
     ''// SPDX-License-Identifier: MIT\<newline>'' @
     ''pragma solidity ^0.8.0;\<newline>'' @
     ''\<newline>'' @
     ''import "@openzeppelin/contracts/token/ERC721/extensions/ERC721Enumerable.sol";\<newline>'' @
     ''import "@openzeppelin/contracts/access/Ownable.sol";\<newline>'' @
     ''\<newline>''\<close>

text \<open>The ERC-20 template, lines 710-721.\<close>

definition erc20Header :: "tokenForm \<Rightarrow> string" where
  \<open>erc20Header f =
     erc20Imports @
     ''contract '' @ removeWhitespace (name f) @ '' is ERC20, Ownable {\<newline>'' @
     ''    constructor() ERC20("'' @ name f @ ''", "'' @ symbol f @ ''") {\<newline>'' @
     ''        // Initial setup\<newline>'' @
     ''        _mint(msg.sender, '' @ optionalIntToString (totalSupply f) @ '' * 10**'' @ intToString (decimals f) @ '');\<newline>'' @
     ''    }\<newline>''\<close>

text \<open>The KYC fragment, lines 725-738.\<close>

definition kycFragment :: string where
  \<open>kycFragment =
     ''\<newline>'' @
     ''    // KYC Implementation\<newline>'' @
     ''    mapping(address => bool) private _kycApproved;\<newline>'' @
     ''    \<newline>'' @
     ''    function setKycStatus(address account, bool status) external onlyOwner {\<newline>'' @
     ''        _kycApproved[account] = status;\<newline>'' @
     ''    }\<newline>'' @
     ''    \<newline>'' @
     ''    function _beforeTokenTransfer(address from, address to, uint256 amount) internal override {\<newline>'' @
     ''        super._beforeTokenTransfer(from, to, amount);\<newline>'' @
     ''        require(from == address(0) || _kycApproved[from], "KYC not approved for sender");\<newline>'' @
     ''        require(to == address(0) || _kycApproved[to], "KYC not approved for recipient");\<newline>'' @
     ''    }\<newline>''\<close>

text \<open>The dividend fragment, lines 743-748.\<close>

definition dividendsFragment :: string where
  \<open>dividendsFragment =
     ''\<newline>'' @
     ''    // Dividend Distribution\<newline>'' @
     ''    function distributeTokenDividends(uint256 amount) external onlyOwner {\<newline>'' @
     ''        // Dividend distribution logic\<newline>'' @
     ''    }\<newline>''\<close>

text \<open>The ERC-1400 template, lines 753-765.\<close>

definition erc1400Header :: "tokenForm \<Rightarrow> string" where
  \<open>erc1400Header f =
     erc20Imports @
     ''contract '' @ removeWhitespace (name f) @ '' is ERC20, Ownable {\<newline>'' @
     ''    // ERC-1400 Security Token Implementation\<newline>'' @
     ''    constructor() ERC20("'' @ name f @ ''", "'' @ symbol f @ ''") {\<newline>'' @
     ''        // Initial setup\<newline>'' @
     ''        _mint(msg.sender, '' @ optionalIntToString (totalSupply f) @ '' * 10**'' @ intToString (decimals f) @ '');\<newline>'' @
     ''    }\<newline>''\<close>

text \<open>The compliance fragment of ERC-1400, lines 769-789.\<close>

definition erc1400Compliance :: "tokenForm \<Rightarrow> string" where
  \<open>erc1400Compliance f =
     ''\<newline>'' @
     ''    // Compliance Controls\<newline>'' @
     ''    mapping(address => bool) private _whitelisted;\<newline>'' @
     ''    '' @ (if whitelistEnabled (metadata f) then ''bool private _whitelistEnabled = true;'' else ''bool private _whitelistEnabled = false;'') @ ''\<newline>'' @
     ''    \<newline>'' @
     ''    function setWhitelistStatus(address account, bool status) external onlyOwner {\<newline>'' @
     ''        _whitelisted[account] = status;\<newline>'' @
     ''    }\<newline>'' @
     ''    \<newline>'' @
     ''    function setWhitelistEnabled(bool enabled) external onlyOwner {\<newline>'' @
     ''        _whitelistEnabled = enabled;\<newline>'' @
     ''    }\<newline>'' @
     ''    \<newline>'' @
     ''    function _beforeTokenTransfer(address from, address to, uint256 amount) internal override {\<newline>'' @
     ''        super._beforeTokenTransfer(from, to, amount);\<newline>'' @
     ''        if (_whitelistEnabled) {\<newline>'' @
     ''            require(from == address(0) || _whitelisted[from], "Sender not whitelisted");\<newline>'' @
     ''            require(to == address(0) || _whitelisted[to], "Recipient not whitelisted");\<newline>'' @
     ''        }\<newline>'' @
     ''    }\<newline>''\<close>

text \<open>The jurisdiction fragment of ERC-1400, lines 797-812.\<close>

definition jurisdictionFragment :: "tokenForm \<Rightarrow> string" where
  \<open>jurisdictionFragment f =
     ''\<newline>'' @
     ''    // Jurisdiction Restrictions\<newline>'' @
     ''    mapping(string => bool) private _restrictedJurisdictions;\<newline>'' @
     ''    \<newline>'' @
     ''    constructor() {\<newline>'' @
     ''        '' @ join ''\<newline>        '' (map (\<lambda>j. ''_restrictedJurisdictions["'' @ j @ ''"] = true;'') (jurisdictionRestrictions (metadata f))) @ ''\<newline>'' @
     ''    }\<newline>'' @
     ''    \<newline>'' @
     ''    function setJurisdictionRestriction(string memory jurisdiction, bool restricted) external onlyOwner {\<newline>'' @
     ''        _restrictedJurisdictions[jurisdiction] = restricted;\<newline>'' @
     ''    }\<newline>'' @
     ''    \<newline>'' @
     ''    function isJurisdictionRestricted(string memory jurisdiction) public view returns (bool) {\<newline>'' @
     ''        return _restrictedJurisdictions[jurisdiction];\<newline>'' @
     ''    }\<newline>''\<close>

text \<open>
  The ERC-3525 template, lines 817-910, in the three parts around the tranche
  statements of line 862: the declarations up to the comment that opens the constructor
  body, one statement per tranche of the list, joined by newlines, and the functions of
  the contract.

  The fourth argument of a statement is \<^verbatim>\<open>${tranche.interestRate * 100}\<close>.
\<close>

definition erc3525Declarations :: "runtime \<Rightarrow> tokenForm \<Rightarrow> string" where
  \<open>erc3525Declarations rt f =
     ''contract '' @ removeWhitespace (name f) @ '' is ERC721Enumerable, Ownable {\<newline>'' @
     ''    // ERC-3525 Semi-Fungible Token Implementation for Structured Products\<newline>'' @
     ''    \<newline>'' @
     ''    // Token details\<newline>'' @
     ''    string private _name = "'' @ name f @ ''";\<newline>'' @
     ''    string private _symbol = "'' @ symbol f @ ''";\<newline>'' @
     ''    uint8 private _decimals = '' @ intToString (decimals f) @ '';\<newline>'' @
     ''    uint256 private _totalSupply = '' @ optionalIntToString (totalSupply f) @ '';\<newline>'' @
     ''    \<newline>'' @
     ''    // Tranche/Slot structure\<newline>'' @
     ''    struct Tranche {\<newline>'' @
     ''        uint256 slotId;\<newline>'' @
     ''        string name;\<newline>'' @
     ''        uint256 value;\<newline>'' @
     ''        uint256 interestRate; // Basis points (1% = 100)\<newline>'' @
     ''    }\<newline>'' @
     ''    \<newline>'' @
     ''    // Mapping from slot ID to tranche details\<newline>'' @
     ''    mapping(uint256 => Tranche) private _tranches;\<newline>'' @
     ''    \<newline>'' @
     ''    // Mapping from token ID to slot ID\<newline>'' @
     ''    mapping(uint256 => uint256) private _tokenSlots;\<newline>'' @
     ''    \<newline>'' @
     ''    // Mapping from token ID to value\<newline>'' @
     ''    mapping(uint256 => uint256) private _tokenValues;\<newline>'' @
     ''    \<newline>'' @
     ''    // Issuance and maturity dates\<newline>'' @
     ''    uint256 private _issuanceDate = '' @ (if issuanceDate (metadata f) \<noteq> [] then epochSeconds rt (issuanceDate (metadata f)) else ''block.timestamp'') @ '';\<newline>'' @
     ''    uint256 private _maturityDate = '' @ (if maturityDate (metadata f) \<noteq> [] then epochSeconds rt (maturityDate (metadata f)) else ''block.timestamp + 157680000'') @ ''; // Default: 5 years\<newline>'' @
     ''    \<newline>'' @
     ''    // Conversion rate to ERC-20\<newline>'' @
     ''    uint256 private _conversionRate = '' @ intToString (if conversionRate (metadata f) \<noteq> 0 then conversionRate (metadata f) else 100) @ '';\<newline>'' @
     ''    \<newline>'' @
     ''    // Events\<newline>'' @
     ''    event SlotCreated(uint256 indexed slotId, string name, uint256 value, uint256 interestRate);\<newline>'' @
     ''    event TokenMinted(address indexed to, uint256 indexed tokenId, uint256 indexed slotId, uint256 value);\<newline>'' @
     ''    \<newline>'' @
     ''    constructor() ERC721("'' @ name f @ ''", "'' @ symbol f @ ''") {\<newline>'' @
     ''        // Initialize tranches\<newline>''\<close>

definition interestRateArgument :: "tranche \<Rightarrow> jsNumber" where
  "interestRateArgument t = roundToDouble (interestRate t * 100)"

definition trancheStatement :: "runtime \<Rightarrow> tranche \<Rightarrow> string" where
  \<open>trancheStatement rt t =
     ''        _createTranche('' @ intToString (tranche_id t) @ '', "'' @ tranche_name t @
     ''", '' @ intToString (tranche_value t) @ '', '' @
     numberToString rt (interestRateArgument t) @ '');''\<close>

definition trancheStatements :: "runtime \<Rightarrow> tokenForm \<Rightarrow> string list" where
  "trancheStatements rt f = map (trancheStatement rt) (tranches (metadata f))"

definition erc3525Functions :: string where
  \<open>erc3525Functions =
     ''\<newline>'' @
     ''    }\<newline>'' @
     ''    \<newline>'' @
     ''    function _createTranche(uint256 slotId, string memory name, uint256 value, uint256 interestRate) internal {\<newline>'' @
     ''        require(_tranches[slotId].slotId == 0, "Tranche already exists");\<newline>'' @
     ''        _tranches[slotId] = Tranche(slotId, name, value, interestRate);\<newline>'' @
     ''        emit SlotCreated(slotId, name, value, interestRate);\<newline>'' @
     ''    }\<newline>'' @
     ''    \<newline>'' @
     ''    function mintToken(address to, uint256 slotId, uint256 value) external onlyOwner {\<newline>'' @
     ''        require(_tranches[slotId].slotId != 0, "Tranche does not exist");\<newline>'' @
     ''        require(value > 0, "Value must be greater than 0");\<newline>'' @
     ''        \<newline>'' @
     ''        uint256 tokenId = totalSupply() + 1;\<newline>'' @
     ''        _mint(to, tokenId);\<newline>'' @
     ''        _tokenSlots[tokenId] = slotId;\<newline>'' @
     ''        _tokenValues[tokenId] = value;\<newline>'' @
     ''        \<newline>'' @
     ''        emit TokenMinted(to, tokenId, slotId, value);\<newline>'' @
     ''    }\<newline>'' @
     ''    \<newline>'' @
     ''    function getTokenSlot(uint256 tokenId) external view returns (uint256) {\<newline>'' @
     ''        require(_exists(tokenId), "Token does not exist");\<newline>'' @
     ''        return _tokenSlots[tokenId];\<newline>'' @
     ''    }\<newline>'' @
     ''    \<newline>'' @
     ''    function getTokenValue(uint256 tokenId) external view returns (uint256) {\<newline>'' @
     ''        require(_exists(tokenId), "Token does not exist");\<newline>'' @
     ''        return _tokenValues[tokenId];\<newline>'' @
     ''    }\<newline>'' @
     ''    \<newline>'' @
     ''    function getTrancheDetails(uint256 slotId) external view returns (string memory, uint256, uint256) {\<newline>'' @
     ''        require(_tranches[slotId].slotId != 0, "Tranche does not exist");\<newline>'' @
     ''        Tranche memory tranche = _tranches[slotId];\<newline>'' @
     ''        return (tranche.name, tranche.value, tranche.interestRate);\<newline>'' @
     ''    }\<newline>'' @
     ''    \<newline>'' @
     ''    function getMaturityDate() external view returns (uint256) {\<newline>'' @
     ''        return _maturityDate;\<newline>'' @
     ''    }\<newline>'' @
     ''    \<newline>'' @
     ''    function getIssuanceDate() external view returns (uint256) {\<newline>'' @
     ''        return _issuanceDate;\<newline>'' @
     ''    }\<newline>'' @
     ''    \<newline>'' @
     ''    function getConversionRate() external view returns (uint256) {\<newline>'' @
     ''        return _conversionRate;\<newline>'' @
     ''    }\<newline>''\<close>

definition erc3525Header :: "runtime \<Rightarrow> tokenForm \<Rightarrow> string" where
  "erc3525Header rt f =
     erc3525Imports @ erc3525Declarations rt f @
     join ''\<newline>'' (trancheStatements rt f) @ erc3525Functions"

text \<open>The compliance fragment of ERC-3525, lines 914-934.\<close>

definition erc3525Compliance :: "tokenForm \<Rightarrow> string" where
  \<open>erc3525Compliance f =
     ''\<newline>'' @
     ''    // Compliance Controls\<newline>'' @
     ''    mapping(address => bool) private _whitelisted;\<newline>'' @
     ''    '' @ (if whitelistEnabled (metadata f) then ''bool private _whitelistEnabled = true;'' else ''bool private _whitelistEnabled = false;'') @ ''\<newline>'' @
     ''    \<newline>'' @
     ''    function setWhitelistStatus(address account, bool status) external onlyOwner {\<newline>'' @
     ''        _whitelisted[account] = status;\<newline>'' @
     ''    }\<newline>'' @
     ''    \<newline>'' @
     ''    function setWhitelistEnabled(bool enabled) external onlyOwner {\<newline>'' @
     ''        _whitelistEnabled = enabled;\<newline>'' @
     ''    }\<newline>'' @
     ''    \<newline>'' @
     ''    function _beforeTokenTransfer(address from, address to, uint256 tokenId) internal override {\<newline>'' @
     ''        super._beforeTokenTransfer(from, to, tokenId);\<newline>'' @
     ''        if (_whitelistEnabled) {\<newline>'' @
     ''            require(from == address(0) || _whitelisted[from], "Sender not whitelisted");\<newline>'' @
     ''            require(to == address(0) || _whitelisted[to], "Recipient not whitelisted");\<newline>'' @
     ''        }\<newline>'' @
     ''    }\<newline>''\<close>

section \<open>The generator\<close>

text \<open>
  \<^verbatim>\<open>generateContractPreview\<close>, lines 704-941: \<^verbatim>\<open>preview\<close> starts empty, one of three
  branches assigns the template of the standard and appends the fragments whose
  condition holds and the closing brace, and any other standard leaves \<^verbatim>\<open>preview\<close>
  empty. \<^verbatim>\<open>xs.includes(s)\<close> is membership, \<^verbatim>\<open>xs.length > 0\<close> is \<open>xs \<noteq> []\<close>.
\<close>

definition generateContractPreview :: "runtime \<Rightarrow> tokenForm \<Rightarrow> string" where
  "generateContractPreview rt f =
     (if standard f = ''ERC-20'' then
        (let preview = erc20Header f;
             preview = (if ''KYC'' \<in> set (compliance (blocks f))
                        then preview @ kycFragment else preview);
             preview = (if ''Dividends'' \<in> set (features (blocks f))
                        then preview @ dividendsFragment else preview)
         in preview @ ''}'')
      else if standard f = ''ERC-1400'' then
        (let preview = erc1400Header f;
             preview = (if compliance (blocks f) \<noteq> []
                        then preview @ erc1400Compliance f else preview);
             preview = (if jurisdictionRestrictions (metadata f) \<noteq> []
                        then preview @ jurisdictionFragment f else preview)
         in preview @ ''}'')
      else if standard f = ''ERC-3525'' then
        (let preview = erc3525Header rt f;
             preview = (if compliance (blocks f) \<noteq> []
                        then preview @ erc3525Compliance f else preview)
         in preview @ ''}'')
      else [])"

text \<open>
  The function has no \<^verbatim>\<open>throw\<close> and no validating branch: a call on a well-typed
  form completes and returns the string. The outcome of a call is written as a sum so
  that a failure can be stated; the two error names are the ones the specification
  uses, and no branch of the source produces either.
\<close>

datatype generationError = UnsupportedStandardKind | DuplicateTrancheIdError

definition generationOutcome :: "runtime \<Rightarrow> tokenForm \<Rightarrow> generationError + string" where
  "generationOutcome rt f = Inr (generateContractPreview rt f)"

text \<open>
  The preview pane, line 1885:
  \<^verbatim>\<open>generateContractPreview() || "// No preview available"\<close>.
\<close>

definition contractPreviewPane :: "runtime \<Rightarrow> tokenForm \<Rightarrow> string" where
  "contractPreviewPane rt f =
     (if generateContractPreview rt f \<noteq> [] then generateContractPreview rt f
      else ''// No preview available'')"

section \<open>The draft as header, body fragments and footer\<close>

text \<open>
  The source returns the text only. The pieces of a draft name what the branches of
  the generator concatenate: the template of the standard, the fragments appended
  under a condition (in the order of the source), and the closing brace. Lemma
  \<open>preview_assembly\<close> shows that the returned text is their concatenation.
\<close>

datatype fragmentId =
    Erc20Kyc
  | Erc20Dividends
  | Erc1400ComplianceControls
  | Erc1400JurisdictionRestrictions
  | Erc3525ComplianceControls

definition headerText :: "runtime \<Rightarrow> tokenForm \<Rightarrow> string" where
  "headerText rt f =
     (if standard f = ''ERC-20'' then erc20Header f
      else if standard f = ''ERC-1400'' then erc1400Header f
      else if standard f = ''ERC-3525'' then erc3525Header rt f
      else [])"

definition bodyFragments :: "tokenForm \<Rightarrow> (fragmentId \<times> string) list" where
  "bodyFragments f =
     (if standard f = ''ERC-20'' then
        (if ''KYC'' \<in> set (compliance (blocks f)) then [(Erc20Kyc, kycFragment)] else []) @
        (if ''Dividends'' \<in> set (features (blocks f))
         then [(Erc20Dividends, dividendsFragment)] else [])
      else if standard f = ''ERC-1400'' then
        (if compliance (blocks f) \<noteq> []
         then [(Erc1400ComplianceControls, erc1400Compliance f)] else []) @
        (if jurisdictionRestrictions (metadata f) \<noteq> []
         then [(Erc1400JurisdictionRestrictions, jurisdictionFragment f)] else [])
      else if standard f = ''ERC-3525'' then
        (if compliance (blocks f) \<noteq> []
         then [(Erc3525ComplianceControls, erc3525Compliance f)] else [])
      else [])"

definition footerText :: "tokenForm \<Rightarrow> string" where
  "footerText f =
     (if standard f = ''ERC-20'' \<or> standard f = ''ERC-1400'' \<or> standard f = ''ERC-3525''
      then ''}'' else [])"

definition includedFragmentIds :: "tokenForm \<Rightarrow> fragmentId list" where
  "includedFragmentIds f = map fst (bodyFragments f)"

section \<open>The tranche summary and saving\<close>

text \<open>\<^verbatim>\<open>String.prototype.includes\<close>: the text occurs in the string.\<close>

fun startsWith :: "string \<Rightarrow> string \<Rightarrow> bool" where
  "startsWith s [] = True"
| "startsWith [] (c # cs) = False"
| "startsWith (d # ds) (c # cs) = (d = c \<and> startsWith ds cs)"

fun stringIncludes :: "string \<Rightarrow> string \<Rightarrow> bool" where
  "stringIncludes [] sub = (sub = [])"
| "stringIncludes (c # cs) sub = (startsWith (c # cs) sub \<or> stringIncludes cs sub)"

text \<open>
  The tranche configuration is rendered under the condition of lines 1488-1490, and
  the summary row inside it when the form has a tranche (line 1644).
\<close>

definition trancheSectionShown :: "tokenForm \<Rightarrow> bool" where
  "trancheSectionShown f =
     (standard f = ''ERC-3525'' \<or>
      stringIncludes (product (metadata f)) ''Structured Product'' \<or>
      stringIncludes (product (metadata f)) ''Credit Linked'')"

text \<open>
  The tranche summary, lines 1643-1670. \<open>trancheTotal\<close> is
  \<^verbatim>\<open>tranches.reduce((sum, t) => sum + t.value, 0)\<close>, a sum of doubles.
  \<open>strictEquals\<close> is \<^verbatim>\<open>===\<close> between the total and \<^verbatim>\<open>tokenForm.totalSupply\<close>: a
  number is not \<^verbatim>\<open>undefined\<close>, and an infinity is no finite number. The class of the
  label is red when the total differs from the total supply (\<^verbatim>\<open>!==\<close>) and green
  otherwise; the label says whether the total matches, and in the other case calls
  \<^verbatim>\<open>tokenForm.totalSupply.toLocaleString()\<close> (line 1667), which throws a
  \<^verbatim>\<open>TypeError\<close> when the form has no total supply.
\<close>

definition trancheTotal :: "tokenForm \<Rightarrow> jsNumber" where
  "trancheTotal f =
     foldl (\<lambda>sum t. addDouble sum (of_int (tranche_value t))) (Finite 0)
       (tranches (metadata f))"

fun strictEquals :: "jsNumber \<Rightarrow> int option \<Rightarrow> bool" where
  "strictEquals (Finite a) (Some n) = (a = of_int n)"
| "strictEquals PlusInfinity (Some n) = False"
| "strictEquals MinusInfinity (Some n) = False"
| "strictEquals x None = False"

datatype renderError = TypeError

definition trancheSummaryClass :: "tokenForm \<Rightarrow> string" where
  "trancheSummaryClass f =
     (if \<not> strictEquals (trancheTotal f) (totalSupply f) then ''text-red-500''
      else ''text-green-500'')"

definition trancheSummaryLabel :: "runtime \<Rightarrow> tokenForm \<Rightarrow> renderError + string" where
  "trancheSummaryLabel rt f =
     (if strictEquals (trancheTotal f) (totalSupply f) then Inr '' Matches total supply''
      else
        (case totalSupply f of
           None \<Rightarrow> Inl TypeError
         | Some n \<Rightarrow>
             Inr ('' Doesn'' @ [CHR 0x27] @ ''t match total supply ('' @
                  toLocaleString rt (Finite (of_int n)) @ '')'')))"

text \<open>
  The row as rendered: nothing, or the text of the total, the class of the label and
  the label; or the error of the label.
\<close>

definition trancheSummary ::
  "runtime \<Rightarrow> tokenForm \<Rightarrow> renderError + (string \<times> string \<times> string) option" where
  "trancheSummary rt f =
     (if trancheSectionShown f \<and> length (tranches (metadata f)) > 0 then
        (case trancheSummaryLabel rt f of
           Inl e \<Rightarrow> Inl e
         | Inr label \<Rightarrow>
             Inr (Some (toLocaleString rt (trancheTotal f), trancheSummaryClass f, label)))
      else Inr None)"

text \<open>
  \<^verbatim>\<open>saveToken\<close>, lines 561-672, up to the call of the store: the form is refused with
  a validation message when the name, the symbol or the standard is empty (lines
  565-573); otherwise the text is generated (line 576) and the row that is written has
  the fields below (lines 582-591 and 619-631; the total supply is not among them),
  with the time of the clock as \<^verbatim>\<open>updated_at\<close>. The store, the project id, the status
  and the creation time of a new row and the version history are outside the model.
\<close>

datatype saveError = ValidationError

record tokenRow =
  row_name :: string
  row_symbol :: string
  row_decimals :: int
  row_standard :: string
  row_blocks :: token_blocks
  row_metadata :: token_metadata
  contract_preview :: string
  updated_at :: string

definition saveToken :: "runtime \<Rightarrow> tokenForm \<Rightarrow> saveError + tokenRow" where
  "saveToken rt f =
     (if name f = [] \<or> symbol f = [] \<or> standard f = [] then Inl ValidationError
      else
        (let contractPreview = generateContractPreview rt f
         in Inr \<lparr> row_name = name f, row_symbol = symbol f, row_decimals = decimals f,
                  row_standard = standard f, row_blocks = blocks f,
                  row_metadata = metadata f, contract_preview = contractPreview,
                  updated_at = toISOString rt (currentTime rt) \<rparr>))"

text \<open>
  \<^verbatim>\<open>handleSelectToken\<close>, lines 408-427, for a row that has its blocks and its metadata:
  the form is set from the row, and no \<^verbatim>\<open>totalSupply\<close> is set.
\<close>

definition handleSelectToken :: "tokenRow \<Rightarrow> tokenForm" where
  "handleSelectToken token =
     \<lparr> name = row_name token, symbol = row_symbol token, decimals = row_decimals token,
       standard = row_standard token, totalSupply = None, blocks = row_blocks token,
       metadata = row_metadata token \<rparr>"

section \<open>What the specification names\<close>

text \<open>
  The specification describes the conversion of a percentage to basis points as
  \<open>round(percentValue \<times> 100)\<close> with ties rounded up. The definition follows those
  words; the source has no function of that name, and the number it renders is
  \<open>interestRateArgument\<close>.
\<close>

definition toBasisPoints_spec :: "rat \<Rightarrow> int" where
  "toBasisPoints_spec percentValue = \<lfloor>percentValue * 100 + 1 / 2\<rfloor>"

text \<open>
  The characters of an identifier, for the specification's "non-identifier characters":
  the ASCII letters and digits, the underscore and the dollar sign.
\<close>

definition isIdentifierChar :: "char \<Rightarrow> bool" where
  "isIdentifierChar c =
     (let n = (of_char c :: nat)
      in (48 \<le> n \<and> n \<le> 57) \<or> (65 \<le> n \<and> n \<le> 90) \<or> (97 \<le> n \<and> n \<le> 122) \<or>
         c = CHR ''_'' \<or> c = CHR ''$'')"

section \<open>Decimal digits read back\<close>

text \<open>
  Reading decimal digits back as a number. The source has no such function; it is the
  left inverse of \<open>natToString\<close> by which the rendering of a tranche id is shown to
  determine the id.
\<close>

definition digitValue :: "char \<Rightarrow> nat" where
  "digitValue c = of_char c - 48"

definition stringToNat :: "string \<Rightarrow> nat" where
  "stringToNat s = foldl (\<lambda>acc c. acc * 10 + digitValue c) 0 s"

section \<open>Forms of the source, for the examples\<close>

text \<open>
  A runtime for the examples: a table of what a JavaScript runtime returns on the
  inputs the examples use (\<^verbatim>\<open>new Date("2025-01-01").getTime()\<close> is 1735689600000,
  \<^verbatim>\<open>String(12.5)\<close> is \<^verbatim>\<open>12.5\<close>, the text of the double \<open>7 + 2^(-50)\<close> is
  \<^verbatim>\<open>7.000000000000001\<close>, \<^verbatim>\<open>(1000000).toLocaleString()\<close> is \<^verbatim>\<open>1,000,000\<close> in the
  en-US locale). The entries outside the table are not used.
\<close>

definition sampleRuntime :: runtime where
  "sampleRuntime =
     \<lparr> dateGetTime = (\<lambda>d. if d = ''2025-01-01'' then Some 1735689600000
                              else if d = ''2030-01-01'' then Some 1893456000000
                              else None),
       otherNumberToString = (\<lambda>x. if x = 25 / 2 then ''12.5''
                                   else if x = 7 + 1 / 2 ^ 50 then ''7.000000000000001''
                                   else ''NaN''),
       toLocaleString = (\<lambda>x. if x = Finite 1000000 then ''1,000,000''
                              else if x = Finite 900000 then ''900,000''
                              else if x = Finite 9007199254740990
                                then ''9,007,199,254,740,990''
                              else if x = Finite 9007199254740991
                                then ''9,007,199,254,740,991''
                              else ''NaN''),
       currentTime = 1735689600000,
       toISOString = (\<lambda>t. if t = 1735689600000 then ''2025-01-01T00:00:00.000Z''
                           else ''2025-01-02T00:00:00.000Z'') \<rparr>"

text \<open>The same runtime a day later, in a locale that groups digits with a full stop.\<close>

definition laterRuntime :: runtime where
  "laterRuntime =
     sampleRuntime\<lparr> currentTime := 1735776000000,
       toLocaleString := (\<lambda>x. if x = Finite 1000000 then ''1.000.000''
                               else if x = Finite 900000 then ''900.000''
                               else ''NaN'') \<rparr>"

text \<open>The initial state of the form, lines 330-357.\<close>

definition initialForm :: tokenForm where
  "initialForm =
     \<lparr> name = [], symbol = [], decimals = 18, standard = ''ERC-20'',
       totalSupply = Some 1000000,
       blocks = \<lparr> compliance = [], features = [], governance = [] \<rparr>,
       metadata = \<lparr> description = [], category = [], product = [], issuanceDate = [],
                    maturityDate = [], tranches = [], whitelistEnabled = True,
                    jurisdictionRestrictions = [], conversionRate = 0 \<rparr> \<rparr>"

text \<open>The default tranches of a structured product, lines 476-478.\<close>

definition defaultTranches :: "tranche list" where
  "defaultTranches =
     [\<lparr> tranche_id = 1, tranche_name = ''Senior (AAA)'', tranche_value = 700000,
        interestRate = 3 \<rparr>,
      \<lparr> tranche_id = 2, tranche_name = ''Mezzanine (BBB)'', tranche_value = 200000,
        interestRate = 5 \<rparr>,
      \<lparr> tranche_id = 3, tranche_name = ''Junior (CCC)'', tranche_value = 100000,
        interestRate = 8 \<rparr>]"

text \<open>
  The form that \<^verbatim>\<open>handleSelectTemplate\<close> (lines 468-511) sets for the template
  "Credit Linked Note" (lines 202-224), with the issuance date 2025-01-01.
\<close>

definition creditLinkedNoteForm :: tokenForm where
  "creditLinkedNoteForm =
     \<lparr> name = ''CreditLinkedNote2025'', symbol = ''CLN'', decimals = 0,
       standard = ''ERC-3525'', totalSupply = Some 1000000,
       blocks = \<lparr> compliance = [''KYC'', ''AML'', ''Accredited Investors Only'',
                                 ''Jurisdiction Restrictions''],
                  features = [''Tranche Structure'', ''Interest Rate'', ''Maturity Date'',
                              ''Credit Event Triggers''],
                  governance = [''Issuer Control''] \<rparr>,
       metadata = \<lparr> description = [], category = ''Structured Products'',
                    product = ''Credit Linked Note'', issuanceDate = ''2025-01-01'',
                    maturityDate = ''2030-01-01'', tranches = defaultTranches,
                    whitelistEnabled = True, jurisdictionRestrictions = [],
                    conversionRate = 100 \<rparr> \<rparr>"

text \<open>An ERC-1400 form with no building block and one restricted jurisdiction.\<close>

definition restrictedErc1400Form :: tokenForm where
  "restrictedErc1400Form =
     initialForm\<lparr> standard := ''ERC-1400'',
       metadata := (metadata initialForm)\<lparr> jurisdictionRestrictions := [''US''] \<rparr> \<rparr>"

text \<open>The credit linked note with its tranches listed in the order 3, 1, 2.\<close>

definition reorderedTranchesForm :: tokenForm where
  "reorderedTranchesForm =
     creditLinkedNoteForm\<lparr> metadata := (metadata creditLinkedNoteForm)
       \<lparr> tranches := [defaultTranches ! 2, defaultTranches ! 0, defaultTranches ! 1] \<rparr> \<rparr>"

text \<open>The credit linked note with two tranches that both have the id 2.\<close>

definition duplicateTrancheForm :: tokenForm where
  "duplicateTrancheForm =
     creditLinkedNoteForm\<lparr> metadata := (metadata creditLinkedNoteForm)
       \<lparr> tranches :=
           [\<lparr> tranche_id = 2, tranche_name = ''Mezzanine (BBB)'', tranche_value = 200000,
              interestRate = 5 \<rparr>,
            \<lparr> tranche_id = 2, tranche_name = ''Junior (CCC)'', tranche_value = 100000,
              interestRate = 8 \<rparr>] \<rparr> \<rparr>"

text \<open>
  The credit linked note with its first two tranches only: their values sum to 900000,
  the total supply is 1000000.
\<close>

definition twoTrancheForm :: tokenForm where
  "twoTrancheForm =
     creditLinkedNoteForm\<lparr> metadata := (metadata creditLinkedNoteForm)
       \<lparr> tranches := [defaultTranches ! 0, defaultTranches ! 1] \<rparr> \<rparr>"

text \<open>A tranche with the interest rate 0.125 per cent.\<close>

definition fractionalRateTranche :: tranche where
  "fractionalRateTranche =
     \<lparr> tranche_id = 1, tranche_name = ''Senior (AAA)'', tranche_value = 700000,
       interestRate = 1 / 8 \<rparr>"

text \<open>
  A tranche with the interest rate 0.07 per cent: \<^verbatim>\<open>parseFloat("0.07")\<close> is the double
  nearest to 7/100, which is \<open>1261007895663739 / 2^54\<close>.
\<close>

definition sevenHundredthsTranche :: tranche where
  "sevenHundredthsTranche =
     \<lparr> tranche_id = 2, tranche_name = ''Mezzanine (BBB)'', tranche_value = 200000,
       interestRate = 1261007895663739 / 18014398509481984 \<rparr>"

text \<open>
  The credit linked note with the total supply \<open>2^53 - 1\<close> and three tranches of the
  values \<open>2^53 - 1\<close>, 2 and -2.
\<close>

definition unsafeTotalForm :: tokenForm where
  "unsafeTotalForm =
     creditLinkedNoteForm\<lparr> totalSupply := Some 9007199254740991,
       metadata := (metadata creditLinkedNoteForm)
       \<lparr> tranches :=
           [\<lparr> tranche_id = 1, tranche_name = ''Senior (AAA)'',
              tranche_value = 9007199254740991, interestRate = 3 \<rparr>,
            \<lparr> tranche_id = 2, tranche_name = ''Mezzanine (BBB)'', tranche_value = 2,
              interestRate = 5 \<rparr>,
            \<lparr> tranche_id = 3, tranche_name = ''Junior (CCC)'', tranche_value = - 2,
              interestRate = 8 \<rparr>] \<rparr> \<rparr>"

section \<open>Assembly of the text\<close>

lemma preview_assembly:
  "generateContractPreview rt f =
     headerText rt f @ concat (map snd (bodyFragments f)) @ footerText f"
  by (simp add: generateContractPreview_def headerText_def bodyFragments_def footerText_def)

lemma includedFragmentIds_cases:
  "includedFragmentIds f =
     (if standard f = ''ERC-20'' then
        (if ''KYC'' \<in> set (compliance (blocks f)) then [Erc20Kyc] else []) @
        (if ''Dividends'' \<in> set (features (blocks f)) then [Erc20Dividends] else [])
      else if standard f = ''ERC-1400'' then
        (if compliance (blocks f) \<noteq> [] then [Erc1400ComplianceControls] else []) @
        (if jurisdictionRestrictions (metadata f) \<noteq> []
         then [Erc1400JurisdictionRestrictions] else [])
      else if standard f = ''ERC-3525'' then
        (if compliance (blocks f) \<noteq> [] then [Erc3525ComplianceControls] else [])
      else [])"
  by (simp add: includedFragmentIds_def bodyFragments_def)

lemma erc3525_preview:
  "standard f = ''ERC-3525'' \<Longrightarrow>
     generateContractPreview rt f =
       erc3525Imports @ erc3525Declarations rt f @
       join ''\<newline>'' (trancheStatements rt f) @ erc3525Functions @
       concat (map snd (bodyFragments f)) @ ''}''"
  by (simp add: preview_assembly headerText_def footerText_def erc3525Header_def)

section \<open>Numbers as text\<close>

lemmas number_text = intToString_def natToString.simps digitChar_def decimalDigits_def

lemma floor_rat_numeral_divide:
  "\<lfloor>numeral a / numeral b :: rat\<rfloor> = numeral a div numeral b"
  using floor_divide_of_int_eq [of "numeral a" "numeral b", where ?'a = rat] by simp

section \<open>Rounding to a double\<close>

lemma halvings_bounds: "1 \<le> x \<Longrightarrow> 2 ^ halvings x \<le> x \<and> x < 2 ^ Suc (halvings x)"
proof (induction x rule: halvings.induct)
  case (1 x)
  show ?case
  proof (cases "x < 2")
    case True
    with 1(2) show ?thesis by (subst (1 2) halvings.simps) simp
  next
    case False
    then have "1 \<le> x / 2" by simp
    with 1(1) False have "2 ^ halvings (x / 2) \<le> x / 2 \<and> x / 2 < 2 ^ Suc (halvings (x / 2))"
      by simp
    with False show ?thesis by (subst (1 2) halvings.simps) simp
  qed
qed

lemma roundHalfEven_of_int: "roundHalfEven (of_int m) = m"
  by (simp add: roundHalfEven_def)

text \<open>A safe integer is a double: rounding leaves it as it is.\<close>

lemma roundToDouble_positive_int:
  assumes "0 < k" and "k \<le> 2 ^ 53"
  shows "roundToDouble (of_int k) = Finite (of_int k)"
proof -
  let ?a = "rat_of_int k"
  let ?h = "halvings ?a"
  have a1: "1 \<le> ?a" using assms(1) by simp
  from halvings_bounds [OF a1] have lo: "2 ^ ?h \<le> ?a" by simp
  have ak: "?a \<le> 2 ^ 53"
    using assms(2) by (metis of_int_le_iff of_int_numeral of_int_power)
  have "(2::rat) ^ ?h \<le> 2 ^ 53"
    by (rule order_trans [OF lo ak])
  then have h53: "?h \<le> 53"
    by (simp only: power_increasing_iff one_less_numeral_iff semiring_norm)
  have e: "max (binaryExponent ?a) (- 1022) = int ?h"
    using a1 by (simp add: binaryExponent_def)
  have r: "of_int (roundHalfEven (?a / pow2 (int ?h - 52))) * pow2 (int ?h - 52) = ?a"
  proof (cases "?h \<le> 52")
    case True
    then have p: "pow2 (int ?h - 52) = 1 / 2 ^ (52 - ?h)"
      by (auto simp: pow2_def nat_diff_distrib' dest: antisym)
    have "?a / pow2 (int ?h - 52) = of_int (k * 2 ^ (52 - ?h))" by (simp add: p)
    then have "roundHalfEven (?a / pow2 (int ?h - 52)) = k * 2 ^ (52 - ?h)"
      by (simp only: roundHalfEven_of_int)
    then show ?thesis by (simp add: p)
  next
    case False
    with h53 have h: "?h = 53" by simp
    with lo have "2 ^ 53 \<le> ?a" by simp
    then have "2 ^ 53 \<le> k" by (metis of_int_le_iff of_int_numeral of_int_power)
    with assms(2) have k: "k = 2 ^ 53" by simp
    have p2: "pow2 (int ?h - 52) = 2" by (simp add: h pow2_def)
    have a53: "?a = of_int (2 ^ 52) * 2" by (simp add: k)
    have "?a / 2 = of_int (2 ^ 52)" by (simp add: k)
    then have rh: "roundHalfEven (?a / 2) = 2 ^ 52"
      by (simp only: roundHalfEven_of_int)
    have "of_int (roundHalfEven (?a / pow2 (int ?h - 52))) * pow2 (int ?h - 52)
        = of_int (2 ^ 52) * 2"
      by (simp only: p2 rh)
    with a53 show ?thesis by (simp only:)
  qed
  have small: "\<not> pow2 1024 \<le> ?a"
  proof -
    have "(2::rat) ^ 53 < 2 ^ 1024" by (rule power_strict_increasing) simp_all
    with ak have "?a < 2 ^ 1024" by (rule le_less_trans)
    moreover have "pow2 1024 = 2 ^ 1024" by (simp add: pow2_def)
    ultimately show ?thesis by (simp only: not_le)
  qed
  show ?thesis
    using assms(1) small by (simp add: roundToDouble_def Let_def e r)
qed

lemma roundToDouble_of_int:
  assumes "\<bar>k\<bar> \<le> 2 ^ 53"
  shows "roundToDouble (of_int k) = Finite (of_int k)"
proof (cases "k = 0")
  case True
  then show ?thesis by (simp add: roundToDouble_def)
next
  case False
  show ?thesis
  proof (cases "0 < k")
    case True
    with assms show ?thesis by (simp add: roundToDouble_positive_int)
  next
    case neg: False
    with False assms have "0 < - k" "- k \<le> 2 ^ 53" by simp_all
    then have pos: "roundToDouble (of_int (- k)) = Finite (of_int (- k))"
      by (rule roundToDouble_positive_int)
    have flip: "roundToDouble (- y) = (case roundToDouble y of Finite r \<Rightarrow> Finite (- r)
        | PlusInfinity \<Rightarrow> MinusInfinity | MinusInfinity \<Rightarrow> PlusInfinity)" for y
      by (simp add: roundToDouble_def Let_def)
    from flip [of "of_int (- k)"] pos show ?thesis by simp
  qed
qed

lemma roundToDouble_numeral:
  "numeral w \<le> (2::int) ^ 53 \<Longrightarrow> roundToDouble (numeral w) = Finite (numeral w)"
  using roundToDouble_of_int [of "numeral w"] by simp

text \<open>The steps of rounding a positive number, for evaluation.\<close>

lemma roundToDouble_positive:
  assumes "0 < y"
    and "binaryExponent y = e" and "- 1022 \<le> e"
    and "pow2 (e - 52) = u"
    and "roundHalfEven (y / u) = n"
    and "of_int n * u = r"
    and "r < pow2 1024"
  shows "roundToDouble y = Finite r"
proof -
  have "\<bar>y\<bar> = y" and "y \<noteq> 0" and "\<not> y < 0" using assms(1) by simp_all
  moreover have "max e (- 1022) = e" using assms(3) by simp
  moreover have "\<not> pow2 1024 \<le> r" using assms(7) by simp
  ultimately show ?thesis
    unfolding roundToDouble_def Let_def
    by (simp only: assms(2,4,5,6) if_False)
qed

lemmas double_steps = binaryExponent_def halvings.simps doublings.simps pow2_def
  roundHalfEven_def floor_rat_numeral_divide

text \<open>0.125 times 100 is 12.5, a double.\<close>

lemma roundToDouble_twelve_and_a_half: "roundToDouble (25 / 2) = Finite (25 / 2)"
  by (rule roundToDouble_positive [where e = 3 and u = "1 / 2 ^ 49" and n = "25 * 2 ^ 48"])
    (simp_all add: double_steps)

text \<open>The double nearest to 7/100, and its product with 100.\<close>

lemma roundToDouble_seven_hundredths:
  "roundToDouble (7 / 100) = Finite (1261007895663739 / 18014398509481984)"
  by (rule roundToDouble_positive
      [where e = "- 4" and u = "1 / 2 ^ 56" and n = 5044031582654956])
    (simp_all add: double_steps)

lemma roundToDouble_seven_hundredths_times_100:
  "roundToDouble (1261007895663739 / 18014398509481984 * 100) = Finite (7 + 1 / 2 ^ 50)"
  by (rule roundToDouble_positive
      [where e = 2 and u = "1 / 2 ^ 50" and n = 7881299347898369])
    (simp_all add: double_steps)

text \<open>\<open>2^53 + 1\<close> is not a double: it rounds to \<open>2^53\<close>.\<close>

lemma roundToDouble_above_safe: "roundToDouble 9007199254740993 = Finite 9007199254740992"
  by (rule roundToDouble_positive [where e = 53 and u = 2 and n = 4503599627370496])
    (simp_all add: double_steps)

section \<open>Decimal digits\<close>

text \<open>The text of a number determines the number.\<close>

lemma below_ten_cases:
  "k < 10 \<Longrightarrow>
     k = 0 \<or> k = 1 \<or> k = 2 \<or> k = 3 \<or> k = 4 \<or> k = 5 \<or> k = 6 \<or> k = 7 \<or> k = 8 \<or> k = (9::nat)"
  by arith

lemma digitValue_digitChar: "d < 10 \<Longrightarrow> digitValue (digitChar d) = d"
  by (drule below_ten_cases) (elim disjE; simp add: digitValue_def digitChar_def decimalDigits_def)

lemma stringToNat_natToString: "stringToNat (natToString n) = n"
proof (induction n rule: natToString.induct)
  case (1 n)
  show ?case
  proof (cases "n < 10")
    case True
    then show ?thesis
      by (subst natToString.simps) (simp add: stringToNat_def digitValue_digitChar)
  next
    case False
    with 1 have "stringToNat (natToString (n div 10)) = n div 10" by simp
    with False show ?thesis
      by (subst natToString.simps) (simp add: stringToNat_def digitValue_digitChar)
  qed
qed

lemma natToString_inj: "natToString a = natToString b \<Longrightarrow> a = b"
  by (metis stringToNat_natToString)

lemma digitChar_digit: "digitChar d \<in> set decimalDigits"
  unfolding digitChar_def by (rule nth_mem) (simp add: decimalDigits_def)

lemma natToString_digits: "set (natToString n) \<subseteq> set decimalDigits"
proof (induction n rule: natToString.induct)
  case (1 n)
  show ?case
  proof (cases "n < 10")
    case True
    then show ?thesis
      using digitChar_digit [of n] by (subst natToString.simps) simp
  next
    case False
    with 1 have "set (natToString (n div 10)) \<subseteq> set decimalDigits" by simp
    with False show ?thesis
      using digitChar_digit [of "n mod 10"] by (subst natToString.simps) simp
  qed
qed

lemma natToString_no_minus: "CHR ''-'' \<notin> set (natToString n)"
proof -
  have "CHR ''-'' \<notin> set decimalDigits" by (simp add: decimalDigits_def)
  with natToString_digits [of n] show ?thesis by blast
qed

lemma natToString_no_comma: "CHR '','' \<notin> set (natToString n)"
proof -
  have "CHR '','' \<notin> set decimalDigits" by (simp add: decimalDigits_def)
  with natToString_digits [of n] show ?thesis by blast
qed

lemma intToString_no_comma: "CHR '','' \<notin> set (intToString i)"
  by (simp add: intToString_def natToString_no_comma)

lemma intToString_inj: "intToString a = intToString b \<Longrightarrow> a = b"
proof -
  assume eq: "intToString a = intToString b"
  have hd_digit: "natToString n \<noteq> CHR ''-'' # s" for n s
    using natToString_no_minus [of n] by (cases "natToString n") auto
  show ?thesis
  proof (cases "a < 0")
    case True
    show ?thesis
    proof (cases "b < 0")
      case True
      with \<open>a < 0\<close> eq have "natToString (nat (- a)) = natToString (nat (- b))"
        by (simp add: intToString_def)
      then have "nat (- a) = nat (- b)" by (rule natToString_inj)
      with True \<open>a < 0\<close> show ?thesis by simp
    next
      case False
      with \<open>a < 0\<close> eq have "natToString (nat b) = CHR ''-'' # natToString (nat (- a))"
        by (simp add: intToString_def)
      with hd_digit show ?thesis by blast
    qed
  next
    case False
    show ?thesis
    proof (cases "b < 0")
      case True
      with \<open>\<not> a < 0\<close> eq have "natToString (nat a) = CHR ''-'' # natToString (nat (- b))"
        by (simp add: intToString_def)
      with hd_digit show ?thesis by blast
    next
      case False
      with \<open>\<not> a < 0\<close> eq have "natToString (nat a) = natToString (nat b)"
        by (simp add: intToString_def)
      then have "nat a = nat b" by (rule natToString_inj)
      with False \<open>\<not> a < 0\<close> show ?thesis by simp
    qed
  qed
qed

lemma before_comma_unique:
  assumes "xs @ CHR '','' # r = ys @ CHR '','' # r'"
    and "CHR '','' \<notin> set xs" and "CHR '','' \<notin> set ys"
  shows "xs = ys"
proof -
  have "takeWhile (\<lambda>c. c \<noteq> CHR '','') (xs @ CHR '','' # r) = xs"
    using assms(2) by (auto simp: takeWhile_tail)
  moreover have "takeWhile (\<lambda>c. c \<noteq> CHR '','') (ys @ CHR '','' # r') = ys"
    using assms(3) by (auto simp: takeWhile_tail)
  ultimately show ?thesis using assms(1) by simp
qed

lemma trancheStatement_slot_key:
  "trancheStatement rt t = trancheStatement rt t' \<Longrightarrow> tranche_id t = tranche_id t'"
proof -
  assume "trancheStatement rt t = trancheStatement rt t'"
  then have eq:
    \<open>intToString (tranche_id t) @ CHR '','' #
       ('' "'' @ tranche_name t @ ''", '' @ intToString (tranche_value t) @ '', '' @
        numberToString rt (interestRateArgument t) @ '');'')
     = intToString (tranche_id t') @ CHR '','' #
       ('' "'' @ tranche_name t' @ ''", '' @ intToString (tranche_value t') @ '', '' @
        numberToString rt (interestRateArgument t') @ '');'')\<close>
    by (simp add: trancheStatement_def)
  have "intToString (tranche_id t) = intToString (tranche_id t')"
    by (rule before_comma_unique [OF eq intToString_no_comma intToString_no_comma])
  then show ?thesis by (rule intToString_inj)
qed

lemma distinct_map_finer:
  assumes "distinct (map k xs)" and "\<And>x y. g x = g y \<Longrightarrow> k x = k y"
  shows "distinct (map g xs)"
  using assms(1)
proof (induction xs)
  case Nil
  show ?case by simp
next
  case (Cons x xs)
  then have fresh: "k x \<notin> k ` set xs" and rest: "distinct (map g xs)" by simp_all
  have "g x \<notin> g ` set xs"
  proof
    assume "g x \<in> g ` set xs"
    then obtain y where y: "y \<in> set xs" and "g x = g y" by blast
    then have "k x = k y" using assms(2) by blast
    with y fresh show False by blast
  qed
  with rest show ?case by simp
qed

lemma trancheStatements_distinct:
  assumes "distinct (map tranche_id (tranches (metadata f)))"
  shows "distinct (trancheStatements rt f)"
  unfolding trancheStatements_def
  using assms by (rule distinct_map_finer) (rule trancheStatement_slot_key)

section \<open>The tranche total\<close>

text \<open>
  While every running total is a safe integer, each sum of the reduction is exact and
  the total is the sum of the values.
\<close>

lemma foldl_addDouble_safe:
  "\<forall>k \<le> length vs. \<bar>a + sum_list (take k vs)\<bar> \<le> 2 ^ 53 \<Longrightarrow>
     foldl (\<lambda>sum v. addDouble sum (of_int v)) (Finite (of_int a)) vs
       = Finite (of_int (a + sum_list vs))"
proof (induction vs arbitrary: a)
  case Nil
  then show ?case by simp
next
  case (Cons v vs)
  have prem: "\<bar>a + sum_list (take k (v # vs))\<bar> \<le> 2 ^ 53" if "k \<le> Suc (length vs)" for k
    using Cons.prems that by simp
  from prem [of "Suc 0"] have "\<bar>a + v\<bar> \<le> 2 ^ 53" by simp
  then have step: "roundToDouble (of_int (a + v)) = Finite (of_int (a + v))"
    by (rule roundToDouble_of_int)
  have "\<forall>k \<le> length vs. \<bar>(a + v) + sum_list (take k vs)\<bar> \<le> 2 ^ 53"
  proof (intro allI impI)
    fix k
    assume "k \<le> length vs"
    then have "Suc k \<le> Suc (length vs)" by simp
    from prem [OF this] show "\<bar>(a + v) + sum_list (take k vs)\<bar> \<le> 2 ^ 53"
      by (simp add: add.assoc)
  qed
  then have "foldl (\<lambda>sum v. addDouble sum (of_int v)) (Finite (of_int (a + v))) vs
      = Finite (of_int ((a + v) + sum_list vs))"
    by (rule Cons.IH)
  moreover have "addDouble (Finite (of_int a)) (of_int v) = Finite (of_int (a + v))"
    using step by simp
  ultimately show ?case by (simp add: add.assoc)
qed

lemma trancheTotal_safe:
  assumes "\<forall>k \<le> length (tranches (metadata f)).
      \<bar>sum_list (take k (map tranche_value (tranches (metadata f))))\<bar> \<le> 2 ^ 53"
  shows "trancheTotal f = Finite (of_int (sum_list (map tranche_value (tranches (metadata f)))))"
proof -
  have "trancheTotal f
      = foldl (\<lambda>sum v. addDouble sum (of_int v)) (Finite (of_int 0))
          (map tranche_value (tranches (metadata f)))"
    by (simp add: trancheTotal_def foldl_map)
  also have "\<dots> = Finite (of_int (0 + sum_list (map tranche_value (tranches (metadata f)))))"
    by (rule foldl_addDouble_safe) (use assms in simp)
  finally show ?thesis by simp
qed

text \<open>
  A form without a total supply, as \<^verbatim>\<open>handleSelectToken\<close> sets it: the summary row of
  a form with a tranche throws.
\<close>

lemma summary_without_total_supply_throws:
  "totalSupply f = None \<Longrightarrow> trancheSectionShown f \<Longrightarrow> tranches (metadata f) \<noteq> [] \<Longrightarrow>
     trancheSummary rt f = Inl TypeError"
  by (simp add: trancheSummary_def trancheSummaryLabel_def)

lemma selected_token_summary_throws:
  "row_standard token = ''ERC-3525'' \<Longrightarrow> tranches (row_metadata token) \<noteq> [] \<Longrightarrow>
     trancheSummary rt (handleSelectToken token) = Inl TypeError"
  by (rule summary_without_total_supply_throws)
    (simp_all add: handleSelectToken_def trancheSectionShown_def)

section \<open>White space\<close>

lemma filter_dropWhile_not: "filter (\<lambda>c. \<not> P c) (dropWhile P xs) = filter (\<lambda>c. \<not> P c) xs"
  by (induction xs) simp_all

lemma removeWhitespace_filter: "removeWhitespace n = filter (\<lambda>c. \<not> isSpace c) n"
  by (induction n rule: removeWhitespace.induct) (simp_all add: filter_dropWhile_not)

section \<open>Standards without a template\<close>

text \<open>
  C1, as the specification states it: for every specification whose standard lies
  outside the enumerated set of known token standards, the generation call fails with
  UnsupportedStandardKind and no partial draft is returned.

  The source has no such failure. For the standard ERC-9999, which is not in
  \<open>TOKEN_STANDARDS\<close>, the call returns the empty string.
\<close>

theorem unknown_standard_counterexample:
  "''ERC-9999'' \<notin> set (map fst TOKEN_STANDARDS) \<and>
   generationOutcome sampleRuntime (initialForm\<lparr>standard := ''ERC-9999''\<rparr>) = Inr [] \<and>
   generationOutcome sampleRuntime (initialForm\<lparr>standard := ''ERC-9999''\<rparr>)
     \<noteq> Inl UnsupportedStandardKind"
  by (simp add: TOKEN_STANDARDS_def generationOutcome_def generateContractPreview_def)

text \<open>
  C1, amended: for every specification whose standard lies outside the enumerated set
  of known token standards, the generation call returns the empty string. No error is
  raised and no draft text is produced; the preview pane then shows
  "// No preview available".
\<close>

theorem unknown_standard_returns_empty_text:
  "standard f \<notin> set (map fst TOKEN_STANDARDS) \<Longrightarrow>
     generationOutcome rt f = Inr [] \<and>
     headerText rt f = [] \<and> includedFragmentIds f = [] \<and> footerText f = [] \<and>
     contractPreviewPane rt f = ''// No preview available''"
  by (simp add: TOKEN_STANDARDS_def generationOutcome_def generateContractPreview_def
      contractPreviewPane_def headerText_def includedFragmentIds_cases footerText_def)

theorem unknown_standard_returns_empty_text_witness:
  "standard (initialForm\<lparr>standard := ''ERC-9999''\<rparr>) \<notin> set (map fst TOKEN_STANDARDS) \<and>
   generationOutcome sampleRuntime (initialForm\<lparr>standard := ''ERC-9999''\<rparr>) = Inr [] \<and>
   contractPreviewPane sampleRuntime (initialForm\<lparr>standard := ''ERC-9999''\<rparr>)
     = ''// No preview available''"
  using unknown_standard_returns_empty_text
    [of "initialForm\<lparr>standard := ''ERC-9999''\<rparr>" sampleRuntime]
  by (simp add: TOKEN_STANDARDS_def)

text \<open>
  C10: for every specification whose standard is ERC-721, ERC-1155 or ERC-4626, all of
  them members of the list of standards offered to the user, the generator returns the
  empty string: no skeleton, no fragments, and no error.
\<close>

theorem offered_standards_without_template:
  "standard f = ''ERC-721'' \<or> standard f = ''ERC-1155'' \<or> standard f = ''ERC-4626'' \<Longrightarrow>
     standard f \<in> set (map fst TOKEN_STANDARDS) \<and>
     generationOutcome rt f = Inr [] \<and>
     headerText rt f = [] \<and> includedFragmentIds f = [] \<and> footerText f = []"
  by (auto simp: TOKEN_STANDARDS_def generationOutcome_def generateContractPreview_def
      headerText_def includedFragmentIds_cases footerText_def)

theorem offered_standards_without_template_witness:
  "standard (initialForm\<lparr>standard := ''ERC-721''\<rparr>) = ''ERC-721'' \<and>
   generationOutcome sampleRuntime (initialForm\<lparr>standard := ''ERC-721''\<rparr>) = Inr [] \<and>
   generationOutcome sampleRuntime (initialForm\<lparr>standard := ''ERC-1155''\<rparr>) = Inr [] \<and>
   generationOutcome sampleRuntime (initialForm\<lparr>standard := ''ERC-4626''\<rparr>) = Inr []"
  using
    offered_standards_without_template [of "initialForm\<lparr>standard := ''ERC-721''\<rparr>" sampleRuntime]
    offered_standards_without_template [of "initialForm\<lparr>standard := ''ERC-1155''\<rparr>" sampleRuntime]
    offered_standards_without_template [of "initialForm\<lparr>standard := ''ERC-4626''\<rparr>" sampleRuntime]
  by simp

section \<open>Determinism\<close>

text \<open>
  The runtime is consulted by the ERC-3525 template only, for its two dates and for
  the interest rates of its tranches.
\<close>

lemma runtime_read_by_erc3525_only:
  "standard f \<noteq> ''ERC-3525'' \<Longrightarrow>
     generateContractPreview rt f = generateContractPreview rt' f"
  by (simp add: generateContractPreview_def)

lemma erc3525_reads_dates_and_rates:
  assumes "issuanceDate (metadata f) \<noteq> [] \<Longrightarrow>
      dateGetTime rt (issuanceDate (metadata f)) = dateGetTime rt' (issuanceDate (metadata f))"
    and "maturityDate (metadata f) \<noteq> [] \<Longrightarrow>
      dateGetTime rt (maturityDate (metadata f)) = dateGetTime rt' (maturityDate (metadata f))"
    and "otherNumberToString rt = otherNumberToString rt'"
  shows "generateContractPreview rt f = generateContractPreview rt' f"
proof -
  have n: "numberToString rt x = numberToString rt' x" for x
    using assms(3) by (cases x) simp_all
  then have t: "trancheStatements rt f = trancheStatements rt' f"
    by (simp add: trancheStatements_def trancheStatement_def)
  have i: "epochSeconds rt (issuanceDate (metadata f)) = epochSeconds rt' (issuanceDate (metadata f))"
    if "issuanceDate (metadata f) \<noteq> []"
    using assms(1) [OF that] by (simp add: epochSeconds_def n split: option.split)
  have m: "epochSeconds rt (maturityDate (metadata f)) = epochSeconds rt' (maturityDate (metadata f))"
    if "maturityDate (metadata f) \<noteq> []"
    using assms(2) [OF that] by (simp add: epochSeconds_def n split: option.split)
  have "erc3525Declarations rt f = erc3525Declarations rt' f"
    unfolding erc3525Declarations_def by (simp add: i m)
  with t show ?thesis
    by (simp add: generateContractPreview_def erc3525Header_def)
qed

text \<open>
  C3: generation is deterministic. For every specification, two invocations of the
  generator on identical input produce identical text and identical included fragment
  ids. The two invocations may run at different times and in different locales: the
  generator reads neither the clock nor the locale, and of the runtime only how it
  parses the two dates of the form and how it writes a number that is not a safe
  integer; two runtimes that agree on these give the same text.
\<close>

theorem generation_deterministic:
  assumes "f1 = f2"
    and "\<forall>d \<in> {issuanceDate (metadata f1), maturityDate (metadata f1)}.
           d \<noteq> [] \<longrightarrow> dateGetTime rt1 d = dateGetTime rt2 d"
    and "otherNumberToString rt1 = otherNumberToString rt2"
  shows "generateContractPreview rt1 f1 = generateContractPreview rt2 f2 \<and>
     includedFragmentIds f1 = includedFragmentIds f2 \<and>
     generationOutcome rt1 f1 = generationOutcome rt2 f2"
proof -
  have "generateContractPreview rt1 f1 = generateContractPreview rt2 f1"
    using assms(2,3) by (intro erc3525_reads_dates_and_rates) simp_all
  with assms(1) show ?thesis by (simp add: generationOutcome_def)
qed

theorem generation_deterministic_witness:
  "currentTime sampleRuntime \<noteq> currentTime laterRuntime \<and>
   toLocaleString sampleRuntime (Finite 1000000) \<noteq> toLocaleString laterRuntime (Finite 1000000) \<and>
   generateContractPreview sampleRuntime creditLinkedNoteForm
     = generateContractPreview laterRuntime creditLinkedNoteForm \<and>
   includedFragmentIds creditLinkedNoteForm = [Erc3525ComplianceControls] \<and>
   updated_at (projr (saveToken sampleRuntime creditLinkedNoteForm))
     \<noteq> updated_at (projr (saveToken laterRuntime creditLinkedNoteForm)) \<and>
   contract_preview (projr (saveToken sampleRuntime creditLinkedNoteForm))
     = contract_preview (projr (saveToken laterRuntime creditLinkedNoteForm))"
proof -
  have d: "\<forall>d \<in> {issuanceDate (metadata creditLinkedNoteForm),
        maturityDate (metadata creditLinkedNoteForm)}.
      d \<noteq> [] \<longrightarrow> dateGetTime sampleRuntime d = dateGetTime laterRuntime d"
    by (simp add: laterRuntime_def)
  have o: "otherNumberToString sampleRuntime = otherNumberToString laterRuntime"
    by (simp add: laterRuntime_def)
  have g: "generateContractPreview sampleRuntime creditLinkedNoteForm
      = generateContractPreview laterRuntime creditLinkedNoteForm"
    using generation_deterministic [OF refl d o] by simp
  have c: "currentTime sampleRuntime \<noteq> currentTime laterRuntime"
    and l: "toLocaleString sampleRuntime (Finite 1000000)
      \<noteq> toLocaleString laterRuntime (Finite 1000000)"
    and i: "includedFragmentIds creditLinkedNoteForm = [Erc3525ComplianceControls]"
    by (simp_all add: laterRuntime_def sampleRuntime_def includedFragmentIds_cases
        creditLinkedNoteForm_def)
  have n: "name creditLinkedNoteForm \<noteq> [] \<and> symbol creditLinkedNoteForm \<noteq> [] \<and>
      standard creditLinkedNoteForm \<noteq> []"
    by (simp add: creditLinkedNoteForm_def)
  have u: "updated_at (projr (saveToken sampleRuntime creditLinkedNoteForm))
      \<noteq> updated_at (projr (saveToken laterRuntime creditLinkedNoteForm))"
    using n by (simp add: saveToken_def laterRuntime_def sampleRuntime_def)
  have p: "contract_preview (projr (saveToken sampleRuntime creditLinkedNoteForm))
      = contract_preview (projr (saveToken laterRuntime creditLinkedNoteForm))"
    using n g by (simp add: saveToken_def)
  from c l g i u p show ?thesis by (simp only: simp_thms)
qed

section \<open>Building blocks and fragments\<close>

text \<open>
  C4, as the specification states it: for every specification whose three
  building-block sets are all empty, generation succeeds and the text consists of the
  skeleton only, header plus footer, with no body fragments.

  The jurisdiction fragment of ERC-1400 (lines 792-813) is appended when the list of
  restricted jurisdictions of the metadata is not empty, whatever the blocks are: an
  ERC-1400 form with no building block and the restricted jurisdiction US has that
  fragment in its text.
\<close>

theorem empty_blocks_counterexample:
  "compliance (blocks restrictedErc1400Form) = [] \<and>
   features (blocks restrictedErc1400Form) = [] \<and>
   governance (blocks restrictedErc1400Form) = [] \<and>
   includedFragmentIds restrictedErc1400Form = [Erc1400JurisdictionRestrictions] \<and>
   generateContractPreview sampleRuntime restrictedErc1400Form
     \<noteq> headerText sampleRuntime restrictedErc1400Form @ footerText restrictedErc1400Form"
  by (simp add: preview_assembly includedFragmentIds_cases bodyFragments_def
      restrictedErc1400Form_def initialForm_def jurisdictionFragment_def)

text \<open>
  C4, amended: for every specification whose three building-block sets are all empty
  and which, when its standard is ERC-1400, has no restricted jurisdiction, generation
  succeeds and the text is the header followed by the footer, with no body fragment
  (for a standard without a template, header and footer are both empty).
\<close>

theorem empty_blocks_give_skeleton_only:
  "compliance (blocks f) = [] \<Longrightarrow> features (blocks f) = [] \<Longrightarrow> governance (blocks f) = [] \<Longrightarrow>
   standard f \<noteq> ''ERC-1400'' \<or> jurisdictionRestrictions (metadata f) = [] \<Longrightarrow>
     generationOutcome rt f = Inr (headerText rt f @ footerText f) \<and>
     includedFragmentIds f = []"
  by (auto simp: generationOutcome_def preview_assembly includedFragmentIds_def
      bodyFragments_def)

theorem empty_blocks_give_skeleton_only_witness:
  "compliance (blocks initialForm) = [] \<and> features (blocks initialForm) = [] \<and>
   governance (blocks initialForm) = [] \<and> standard initialForm \<noteq> ''ERC-1400'' \<and>
   generationOutcome sampleRuntime initialForm = Inr (erc20Header initialForm @ ''}'') \<and>
   includedFragmentIds initialForm = []"
  using empty_blocks_give_skeleton_only [of initialForm sampleRuntime]
  by (simp add: initialForm_def headerText_def footerText_def)

text \<open>
  The fragments of a form are among those of any form with the same standard and
  metadata whose block sets are supersets.
\<close>

lemma fragments_monotone:
  assumes "standard g = standard f" and "metadata g = metadata f"
    and "set (compliance (blocks f)) \<subseteq> set (compliance (blocks g))"
    and "set (features (blocks f)) \<subseteq> set (features (blocks g))"
  shows "set (includedFragmentIds f) \<subseteq> set (includedFragmentIds g)"
proof -
  have "compliance (blocks g) \<noteq> []" if "compliance (blocks f) \<noteq> []"
    using that assms(3) by (cases "compliance (blocks f)") auto
  with assms show ?thesis
    by (auto simp: includedFragmentIds_cases)
qed

text \<open>
  C6, monotonic inclusion: for every specification, adding one more building-block
  name to any of the three block sets, with the standard and all other fields
  unchanged, yields a set of included fragment ids that is a superset of the set for
  the original specification. \<^verbatim>\<open>handleBlockToggle\<close> (line 554) adds a name at the end
  of the list.
\<close>

theorem adding_a_block_keeps_fragments:
  "set (includedFragmentIds f)
     \<subseteq> set (includedFragmentIds
           (f\<lparr>blocks := (blocks f)\<lparr>compliance := compliance (blocks f) @ [b]\<rparr>\<rparr>)) \<and>
   set (includedFragmentIds f)
     \<subseteq> set (includedFragmentIds
           (f\<lparr>blocks := (blocks f)\<lparr>features := features (blocks f) @ [b]\<rparr>\<rparr>)) \<and>
   set (includedFragmentIds f)
     \<subseteq> set (includedFragmentIds
           (f\<lparr>blocks := (blocks f)\<lparr>governance := governance (blocks f) @ [b]\<rparr>\<rparr>))"
  by (auto simp: includedFragmentIds_cases)

theorem adding_a_block_keeps_fragments_witness:
  "includedFragmentIds initialForm = [] \<and>
   includedFragmentIds
     (initialForm\<lparr>blocks := (blocks initialForm)
        \<lparr>compliance := compliance (blocks initialForm) @ [''KYC'']\<rparr>\<rparr>) = [Erc20Kyc] \<and>
   set (includedFragmentIds initialForm)
     \<subseteq> set (includedFragmentIds
           (initialForm\<lparr>blocks := (blocks initialForm)
              \<lparr>compliance := compliance (blocks initialForm) @ [''KYC'']\<rparr>\<rparr>))"
  using adding_a_block_keeps_fragments [of initialForm "''KYC''"]
  by (simp add: includedFragmentIds_cases initialForm_def)

section \<open>The interest rate of a tranche statement\<close>

text \<open>
  C8: the percentage-to-basis-points conversion returns an integer equal to
  \<open>round(percentValue \<times> 100)\<close> with half-up tie-breaking, for every percentage value that
  reaches a rendered tranche statement.

  The template declares the argument as \<^verbatim>\<open>uint256 interestRate\<close> in basis points
  (lines 837 and 865), and the source renders \<^verbatim>\<open>${tranche.interestRate * 100}\<close>
  without rounding. For the rate 0.125 the statement has 12.5 where the rounded value
  is 13, and for the rate 0.07 it has 7.000000000000001 where the rounded value is 7.
\<close>

theorem fractional_rate_rendered_unrounded:
  \<open>interestRateArgument fractionalRateTranche = Finite (25 / 2) \<and>
   toBasisPoints_spec (interestRate fractionalRateTranche) = 13 \<and>
   trancheStatement sampleRuntime fractionalRateTranche
     = ''        _createTranche(1, "Senior (AAA)", 700000, 12.5);'' \<and>
   roundToDouble (7 / 100) = Finite (interestRate sevenHundredthsTranche) \<and>
   interestRateArgument sevenHundredthsTranche = Finite (7 + 1 / 2 ^ 50) \<and>
   toBasisPoints_spec (interestRate sevenHundredthsTranche) = 7 \<and>
   trancheStatement sampleRuntime sevenHundredthsTranche
     = ''        _createTranche(2, "Mezzanine (BBB)", 200000, 7.000000000000001);''\<close>
proof -
  have a: "interestRateArgument fractionalRateTranche = Finite (25 / 2)"
    using roundToDouble_twelve_and_a_half
    by (simp add: interestRateArgument_def fractionalRateTranche_def)
  have b: "toBasisPoints_spec (interestRate fractionalRateTranche) = 13"
    by (simp add: toBasisPoints_spec_def fractionalRateTranche_def)
  have c: \<open>trancheStatement sampleRuntime fractionalRateTranche
     = ''        _createTranche(1, "Senior (AAA)", 700000, 12.5);''\<close>
    unfolding trancheStatement_def a
    by (simp add: fractionalRateTranche_def sampleRuntime_def number_text
        floor_rat_numeral_divide)
  have d: "roundToDouble (7 / 100) = Finite (interestRate sevenHundredthsTranche)"
    using roundToDouble_seven_hundredths by (simp add: sevenHundredthsTranche_def)
  have e: "interestRateArgument sevenHundredthsTranche = Finite (7 + 1 / 2 ^ 50)"
    using roundToDouble_seven_hundredths_times_100
    by (simp add: interestRateArgument_def sevenHundredthsTranche_def)
  have f: "toBasisPoints_spec (interestRate sevenHundredthsTranche) = 7"
    by (simp add: toBasisPoints_spec_def sevenHundredthsTranche_def floor_rat_numeral_divide)
  have g: \<open>trancheStatement sampleRuntime sevenHundredthsTranche
     = ''        _createTranche(2, "Mezzanine (BBB)", 200000, 7.000000000000001);''\<close>
    unfolding trancheStatement_def e
    by (simp add: sevenHundredthsTranche_def sampleRuntime_def number_text
        floor_rat_numeral_divide)
  from a b c d e f g show ?thesis by (simp only: simp_thms)
qed

section \<open>The contract name\<close>

text \<open>
  C9, as the specification states it: identifier sanitization removes whitespace and
  non-identifier characters from the token name, producing a single contiguous token
  used as the contract name; in particular the name "Credit Linked Note 2025" renders
  to one contiguous identifier with all internal whitespace removed.

  The source removes white space only (\<^verbatim>\<open>name.replace(/\s+/g, "")\<close>): the hyphen and
  the parentheses of "Note-2025 (A)" stay in the contract name.
\<close>

theorem sanitization_counterexample:
  "removeWhitespace ''Note-2025 (A)'' = ''Note-2025(A)'' \<and>
   CHR ''-'' \<in> set (removeWhitespace ''Note-2025 (A)'') \<and>
   \<not> isIdentifierChar (CHR ''-'')"
  by (simp add: isSpace_def isIdentifierChar_def)

text \<open>
  C9, amended: identifier sanitization removes every white-space character from the
  token name and nothing else, keeping the other characters in their order, and the
  result is used as the contract name in each of the three templates; in particular
  the name "Credit Linked Note 2025" renders to \<^verbatim>\<open>CreditLinkedNote2025\<close>.
\<close>

theorem sanitization_removes_whitespace:
  "removeWhitespace n = filter (\<lambda>c. \<not> isSpace c) n \<and>
   removeWhitespace ''Credit Linked Note 2025'' = ''CreditLinkedNote2025'' \<and>
   (\<exists>rest. erc20Header f =
      erc20Imports @ ''contract '' @ removeWhitespace (name f) @
      '' is ERC20, Ownable {'' @ rest) \<and>
   (\<exists>rest. erc1400Header f =
      erc20Imports @ ''contract '' @ removeWhitespace (name f) @
      '' is ERC20, Ownable {'' @ rest) \<and>
   (\<exists>rest. erc3525Header rt f =
      erc3525Imports @ ''contract '' @ removeWhitespace (name f) @
      '' is ERC721Enumerable, Ownable {'' @ rest)"
proof -
  have "removeWhitespace ''Credit Linked Note 2025'' = ''CreditLinkedNote2025''"
    by (simp add: isSpace_def)
  moreover have "\<exists>rest. erc20Header f =
      erc20Imports @ ''contract '' @ removeWhitespace (name f) @
      '' is ERC20, Ownable {'' @ rest"
    by (simp add: erc20Header_def)
  moreover have "\<exists>rest. erc1400Header f =
      erc20Imports @ ''contract '' @ removeWhitespace (name f) @
      '' is ERC20, Ownable {'' @ rest"
    by (simp add: erc1400Header_def)
  moreover have "\<exists>rest. erc3525Header rt f =
      erc3525Imports @ ''contract '' @ removeWhitespace (name f) @
      '' is ERC721Enumerable, Ownable {'' @ rest"
    by (simp add: erc3525Header_def erc3525Declarations_def)
  ultimately show ?thesis
    by (simp add: removeWhitespace_filter)
qed

theorem sanitization_removes_whitespace_witness:
  "removeWhitespace ''Credit Linked Note 2025''
     = filter (\<lambda>c. \<not> isSpace c) ''Credit Linked Note 2025'' \<and>
   removeWhitespace ''Credit Linked Note 2025'' = ''CreditLinkedNote2025'' \<and>
   list_all (\<lambda>c. \<not> isSpace c) (removeWhitespace ''Credit Linked Note 2025'')"
  using sanitization_removes_whitespace [of "''Credit Linked Note 2025''"]
  by (simp add: isSpace_def)

section \<open>Tranche statements\<close>

text \<open>
  C2, as the specification states it: for every specification of a tranche-bearing
  standard in which two tranches share the same id, generation fails with
  DuplicateTrancheIdError before rendering any tranche initialization statement; no
  tranche text is emitted.

  The generator does not compare tranche ids. For two tranches that both have the id 2
  it returns a text, with a statement for each of them.
\<close>

theorem duplicate_tranche_ids_counterexample:
  \<open>standard duplicateTrancheForm = ''ERC-3525'' \<and>
   \<not> distinct (map tranche_id (tranches (metadata duplicateTrancheForm))) \<and>
   generationOutcome sampleRuntime duplicateTrancheForm \<noteq> Inl DuplicateTrancheIdError \<and>
   trancheStatements sampleRuntime duplicateTrancheForm =
     [''        _createTranche(2, "Mezzanine (BBB)", 200000, 500);'',
      ''        _createTranche(2, "Junior (CCC)", 100000, 800);'']\<close>
  by (simp add: duplicateTrancheForm_def creditLinkedNoteForm_def generationOutcome_def
      trancheStatements_def trancheStatement_def interestRateArgument_def
      roundToDouble_numeral number_text)

text \<open>
  C2, amended: for every specification of the tranche-bearing standard ERC-3525 in
  which two tranches share the same id, generation succeeds, and the text has one
  initialization statement for each tranche of the list, the tranches with the shared
  id included, in the constructor of the contract.
\<close>

theorem duplicate_tranche_ids_are_rendered:
  "standard f = ''ERC-3525'' \<Longrightarrow>
   \<not> distinct (map tranche_id (tranches (metadata f))) \<Longrightarrow>
     generationOutcome rt f =
       Inr (erc3525Imports @ erc3525Declarations rt f @
            join ''\<newline>'' (map (trancheStatement rt) (tranches (metadata f))) @
            erc3525Functions @ concat (map snd (bodyFragments f)) @ ''}'') \<and>
     length (trancheStatements rt f) = length (tranches (metadata f))"
  by (simp add: generationOutcome_def erc3525_preview trancheStatements_def)

theorem duplicate_tranche_ids_are_rendered_witness:
  "standard duplicateTrancheForm = ''ERC-3525'' \<and>
   \<not> distinct (map tranche_id (tranches (metadata duplicateTrancheForm))) \<and>
   generationOutcome sampleRuntime duplicateTrancheForm =
     Inr (erc3525Imports @ erc3525Declarations sampleRuntime duplicateTrancheForm @
          join ''\<newline>''
            (map (trancheStatement sampleRuntime) (tranches (metadata duplicateTrancheForm))) @
          erc3525Functions @ erc3525Compliance duplicateTrancheForm @ ''}'') \<and>
   length (trancheStatements sampleRuntime duplicateTrancheForm) = 2"
proof -
  have s: "standard duplicateTrancheForm = ''ERC-3525''"
    by (simp add: duplicateTrancheForm_def creditLinkedNoteForm_def)
  have d: "\<not> distinct (map tranche_id (tranches (metadata duplicateTrancheForm)))"
    by (simp add: duplicateTrancheForm_def)
  have b: "concat (map snd (bodyFragments duplicateTrancheForm))
      = erc3525Compliance duplicateTrancheForm"
    by (simp add: bodyFragments_def duplicateTrancheForm_def creditLinkedNoteForm_def)
  have l: "length (tranches (metadata duplicateTrancheForm)) = 2"
    by (simp add: duplicateTrancheForm_def)
  show ?thesis
    using duplicate_tranche_ids_are_rendered [OF s d, of sampleRuntime] s d b l by simp
qed

text \<open>
  C7, as the specification states it: for every tranche-bearing specification with
  distinct tranche ids, the generator emits exactly one initialization statement per
  tranche, using each tranche's id as its slot key, and the statements for tranches
  with ids 1, 2, 3 appear in the order 1, 2, 3 regardless of the order in which the
  tranches appear in the input list.

  The generator maps over the list and does not sort: for the tranches listed in the
  order 3, 1, 2 the statements are in the order 3, 1, 2.
\<close>

theorem tranche_order_counterexample:
  \<open>standard reorderedTranchesForm = ''ERC-3525'' \<and>
   distinct (map tranche_id (tranches (metadata reorderedTranchesForm))) \<and>
   map tranche_id (tranches (metadata reorderedTranchesForm)) = [3, 1, 2] \<and>
   trancheStatements sampleRuntime reorderedTranchesForm =
     [''        _createTranche(3, "Junior (CCC)", 100000, 800);'',
      ''        _createTranche(1, "Senior (AAA)", 700000, 300);'',
      ''        _createTranche(2, "Mezzanine (BBB)", 200000, 500);'']\<close>
  by (simp add: reorderedTranchesForm_def creditLinkedNoteForm_def defaultTranches_def
      trancheStatements_def trancheStatement_def interestRateArgument_def
      roundToDouble_numeral number_text)

text \<open>
  C7, amended: for every tranche-bearing specification with distinct tranche ids, the
  generator emits exactly one initialization statement per tranche, using each
  tranche's id as its slot key, no two statements alike, and the statements appear in
  the order of the tranche list: tranches listed with the ids 1, 2, 3 give the
  statements in the order 1, 2, 3.
\<close>

theorem tranche_statements_in_list_order:
  "standard f = ''ERC-3525'' \<Longrightarrow>
   distinct (map tranche_id (tranches (metadata f))) \<Longrightarrow>
     generateContractPreview rt f =
       erc3525Imports @ erc3525Declarations rt f @
       join ''\<newline>'' (trancheStatements rt f) @
       erc3525Functions @ concat (map snd (bodyFragments f)) @ ''}'' \<and>
     length (trancheStatements rt f) = length (tranches (metadata f)) \<and>
     distinct (trancheStatements rt f) \<and>
     (\<forall>i < length (tranches (metadata f)).
        \<exists>rest. trancheStatements rt f ! i =
          ''        _createTranche('' @ intToString (tranche_id (tranches (metadata f) ! i)) @
          '', '' @ rest)"
proof -
  assume s: "standard f = ''ERC-3525''"
    and d: "distinct (map tranche_id (tranches (metadata f)))"
  have "\<exists>rest. trancheStatement rt t =
      ''        _createTranche('' @ intToString (tranche_id t) @ '', '' @ rest" for t
    by (simp add: trancheStatement_def)
  then have "\<forall>i < length (tranches (metadata f)).
        \<exists>rest. trancheStatements rt f ! i =
          ''        _createTranche('' @ intToString (tranche_id (tranches (metadata f) ! i)) @
          '', '' @ rest"
    by (simp add: trancheStatements_def)
  moreover have "length (trancheStatements rt f) = length (tranches (metadata f))"
    by (simp add: trancheStatements_def)
  ultimately show ?thesis
    using erc3525_preview [OF s, of rt] trancheStatements_distinct [OF d, of rt] by simp
qed

theorem tranche_statements_in_list_order_witness:
  \<open>standard creditLinkedNoteForm = ''ERC-3525'' \<and>
   distinct (map tranche_id (tranches (metadata creditLinkedNoteForm))) \<and>
   map tranche_id (tranches (metadata creditLinkedNoteForm)) = [1, 2, 3] \<and>
   trancheStatements sampleRuntime creditLinkedNoteForm =
     [''        _createTranche(1, "Senior (AAA)", 700000, 300);'',
      ''        _createTranche(2, "Mezzanine (BBB)", 200000, 500);'',
      ''        _createTranche(3, "Junior (CCC)", 100000, 800);''] \<and>
   distinct (trancheStatements sampleRuntime creditLinkedNoteForm) \<and>
   generateContractPreview sampleRuntime creditLinkedNoteForm =
     erc3525Imports @ erc3525Declarations sampleRuntime creditLinkedNoteForm @
     join ''\<newline>'' (trancheStatements sampleRuntime creditLinkedNoteForm) @
     erc3525Functions @ erc3525Compliance creditLinkedNoteForm @ ''}''\<close>
proof -
  have s: "standard creditLinkedNoteForm = ''ERC-3525''"
    by (simp add: creditLinkedNoteForm_def)
  have d: "distinct (map tranche_id (tranches (metadata creditLinkedNoteForm)))"
    by (simp add: creditLinkedNoteForm_def defaultTranches_def)
  have i: "map tranche_id (tranches (metadata creditLinkedNoteForm)) = [1, 2, 3]"
    by (simp add: creditLinkedNoteForm_def defaultTranches_def)
  have b: "concat (map snd (bodyFragments creditLinkedNoteForm))
      = erc3525Compliance creditLinkedNoteForm"
    by (simp add: bodyFragments_def creditLinkedNoteForm_def)
  have t: \<open>trancheStatements sampleRuntime creditLinkedNoteForm =
     [''        _createTranche(1, "Senior (AAA)", 700000, 300);'',
      ''        _createTranche(2, "Mezzanine (BBB)", 200000, 500);'',
      ''        _createTranche(3, "Junior (CCC)", 100000, 800);'']\<close>
    by (simp add: creditLinkedNoteForm_def defaultTranches_def trancheStatements_def
        trancheStatement_def interestRateArgument_def roundToDouble_numeral number_text)
  from tranche_statements_in_list_order [OF s d, of sampleRuntime]
  have "generateContractPreview sampleRuntime creditLinkedNoteForm =
     erc3525Imports @ erc3525Declarations sampleRuntime creditLinkedNoteForm @
     join ''\<newline>'' (trancheStatements sampleRuntime creditLinkedNoteForm) @
     erc3525Functions @ erc3525Compliance creditLinkedNoteForm @ ''}''"
    and "distinct (trancheStatements sampleRuntime creditLinkedNoteForm)"
    by (simp_all only: b)
  with s d i t show ?thesis by (simp only: simp_thms)
qed

section \<open>The tranche sum\<close>

text \<open>
  C5, as the specification states it: the tranche-sum check is a non-fatal warning. For
  every specification, if the sum of the tranche values equals the total supply the
  check yields matches = true, and if it differs it yields matches = false, and in
  neither case is an error raised or generation or saving blocked.

  The check adds doubles. For the total supply \<open>2^53 - 1\<close> and the tranche values
  \<open>2^53 - 1\<close>, 2 and -2 the sum of the values equals the total supply, the total of the
  check is \<open>2^53 - 2\<close>, and the label is red.
\<close>

theorem tranche_sum_counterexample:
  \<open>totalSupply unsafeTotalForm = Some 9007199254740991 \<and>
   sum_list (map tranche_value (tranches (metadata unsafeTotalForm))) = 9007199254740991 \<and>
   trancheTotal unsafeTotalForm = Finite 9007199254740990 \<and>
   trancheSummary sampleRuntime unsafeTotalForm =
     Inr (Some (''9,007,199,254,740,990'', ''text-red-500'',
                '' Doesn'' @ [CHR 0x27] @
                ''t match total supply (9,007,199,254,740,991)''))\<close>
proof -
  have t: "trancheTotal unsafeTotalForm = Finite 9007199254740990"
    by (simp add: trancheTotal_def unsafeTotalForm_def creditLinkedNoteForm_def
        roundToDouble_numeral roundToDouble_above_safe)
  have s: "totalSupply unsafeTotalForm = Some 9007199254740991"
    and v: "sum_list (map tranche_value (tranches (metadata unsafeTotalForm)))
      = 9007199254740991"
    and g: "trancheSectionShown unsafeTotalForm"
    and l: "tranches (metadata unsafeTotalForm) \<noteq> []"
    by (simp_all add: unsafeTotalForm_def creditLinkedNoteForm_def trancheSectionShown_def)
  have "trancheSummary sampleRuntime unsafeTotalForm =
     Inr (Some (''9,007,199,254,740,990'', ''text-red-500'',
                '' Doesn'' @ [CHR 0x27] @
                ''t match total supply (9,007,199,254,740,991)''))"
    using g l by (simp add: trancheSummary_def trancheSummaryLabel_def trancheSummaryClass_def
        t s sampleRuntime_def)
  with s v t show ?thesis by (simp only: simp_thms)
qed

text \<open>
  C5, amended: the tranche-sum check is a non-fatal warning. For every specification
  that has a total supply and whose running totals of the tranche values are safe
  integers, the total of the check is the sum of the tranche values; where the summary
  row is rendered (the tranche section is shown and the form has a tranche) the check
  yields matches = true, with the green label, if the sum equals the total supply, and
  matches = false, with the red label, if it differs, and where it is not rendered there
  is no check; in neither case is an error raised or generation or saving blocked:
  generation returns its text, and a form with a name, a symbol and a standard is saved
  with that text.
\<close>

theorem tranche_sum_check_warns_only:
  assumes "totalSupply f = Some n"
    and "\<forall>k \<le> length (tranches (metadata f)).
      \<bar>sum_list (take k (map tranche_value (tranches (metadata f))))\<bar> \<le> 2 ^ 53"
  shows "trancheTotal f = Finite (of_int (sum_list (map tranche_value (tranches (metadata f))))) \<and>
     (trancheSectionShown f \<and> tranches (metadata f) \<noteq> [] \<longrightarrow>
        trancheSummary rt f =
          Inr (Some (toLocaleString rt (trancheTotal f),
                 (if sum_list (map tranche_value (tranches (metadata f))) = n
                  then ''text-green-500'' else ''text-red-500''),
                 (if sum_list (map tranche_value (tranches (metadata f))) = n
                  then '' Matches total supply''
                  else '' Doesn'' @ [CHR 0x27] @ ''t match total supply ('' @
                       toLocaleString rt (Finite (of_int n)) @ '')'')))) \<and>
     (\<not> (trancheSectionShown f \<and> tranches (metadata f) \<noteq> []) \<longrightarrow>
        trancheSummary rt f = Inr None) \<and>
     generationOutcome rt f
       = Inr (headerText rt f @ concat (map snd (bodyFragments f)) @ footerText f) \<and>
     (name f \<noteq> [] \<and> symbol f \<noteq> [] \<and> standard f \<noteq> [] \<longrightarrow>
        (\<exists>row. saveToken rt f = Inr row \<and>
           contract_preview row = generateContractPreview rt f \<and>
           row_metadata row = metadata f))"
proof -
  note total = trancheTotal_safe [OF assms(2)]
  have "trancheSummary rt f =
          Inr (Some (toLocaleString rt (trancheTotal f),
                 (if sum_list (map tranche_value (tranches (metadata f))) = n
                  then ''text-green-500'' else ''text-red-500''),
                 (if sum_list (map tranche_value (tranches (metadata f))) = n
                  then '' Matches total supply''
                  else '' Doesn'' @ [CHR 0x27] @ ''t match total supply ('' @
                       toLocaleString rt (Finite (of_int n)) @ '')'')))"
    if "trancheSectionShown f" and "tranches (metadata f) \<noteq> []"
    using that assms(1)
    by (simp add: trancheSummary_def trancheSummaryLabel_def trancheSummaryClass_def total)
  moreover have "trancheSummary rt f = Inr None"
    if "\<not> (trancheSectionShown f \<and> tranches (metadata f) \<noteq> [])"
    using that by (auto simp: trancheSummary_def)
  moreover have "generationOutcome rt f
       = Inr (headerText rt f @ concat (map snd (bodyFragments f)) @ footerText f)"
    by (simp add: generationOutcome_def preview_assembly)
  moreover have "\<exists>row. saveToken rt f = Inr row \<and>
           contract_preview row = generateContractPreview rt f \<and>
           row_metadata row = metadata f"
    if "name f \<noteq> [] \<and> symbol f \<noteq> [] \<and> standard f \<noteq> []"
    using that by (simp add: saveToken_def)
  ultimately show ?thesis using total by blast
qed

theorem tranche_sum_check_warns_only_witness:
  "totalSupply creditLinkedNoteForm = Some 1000000 \<and>
   trancheTotal creditLinkedNoteForm = Finite 1000000 \<and>
   trancheSummary sampleRuntime creditLinkedNoteForm
     = Inr (Some (''1,000,000'', ''text-green-500'', '' Matches total supply'')) \<and>
   totalSupply twoTrancheForm = Some 1000000 \<and>
   trancheTotal twoTrancheForm = Finite 900000 \<and>
   trancheSummary sampleRuntime twoTrancheForm
     = Inr (Some (''900,000'', ''text-red-500'',
                  '' Doesn'' @ [CHR 0x27] @ ''t match total supply (1,000,000)'')) \<and>
   isl (saveToken sampleRuntime twoTrancheForm) = False \<and>
   contract_preview (projr (saveToken sampleRuntime twoTrancheForm))
     = generateContractPreview sampleRuntime twoTrancheForm"
proof -
  have cases: "k = 0 \<or> k = 1 \<or> k = 2 \<or> k = 3" if "k \<le> 3" for k :: nat
    using that by arith
  have a: "totalSupply creditLinkedNoteForm = Some 1000000"
    and a'': "trancheSectionShown creditLinkedNoteForm \<and>
      tranches (metadata creditLinkedNoteForm) \<noteq> []"
    and as: "sum_list (map tranche_value (tranches (metadata creditLinkedNoteForm))) = 1000000"
    by (simp_all add: creditLinkedNoteForm_def defaultTranches_def trancheSectionShown_def)
  have a': "\<forall>k \<le> length (tranches (metadata creditLinkedNoteForm)).
      \<bar>sum_list (take k (map tranche_value (tranches (metadata creditLinkedNoteForm))))\<bar>
        \<le> 2 ^ 53"
  proof (intro allI impI)
    fix k
    assume "k \<le> length (tranches (metadata creditLinkedNoteForm))"
    then have "k \<le> 3" by (simp add: creditLinkedNoteForm_def defaultTranches_def)
    from cases [OF this]
    show "\<bar>sum_list (take k (map tranche_value (tranches (metadata creditLinkedNoteForm))))\<bar>
        \<le> 2 ^ 53"
      by (elim disjE) (simp_all add: creditLinkedNoteForm_def defaultTranches_def)
  qed
  have b: "totalSupply twoTrancheForm = Some 1000000"
    and b'': "trancheSectionShown twoTrancheForm \<and> tranches (metadata twoTrancheForm) \<noteq> []"
    and bs: "sum_list (map tranche_value (tranches (metadata twoTrancheForm))) = 900000"
    and bn: "name twoTrancheForm \<noteq> [] \<and> symbol twoTrancheForm \<noteq> [] \<and>
      standard twoTrancheForm \<noteq> []"
    by (simp_all add: twoTrancheForm_def creditLinkedNoteForm_def defaultTranches_def
        trancheSectionShown_def)
  have b': "\<forall>k \<le> length (tranches (metadata twoTrancheForm)).
      \<bar>sum_list (take k (map tranche_value (tranches (metadata twoTrancheForm))))\<bar>
        \<le> 2 ^ 53"
  proof (intro allI impI)
    fix k
    assume "k \<le> length (tranches (metadata twoTrancheForm))"
    then have "k \<le> 3" by (simp add: twoTrancheForm_def)
    from cases [OF this]
    show "\<bar>sum_list (take k (map tranche_value (tranches (metadata twoTrancheForm))))\<bar>
        \<le> 2 ^ 53"
      by (elim disjE)
        (simp_all add: twoTrancheForm_def creditLinkedNoteForm_def defaultTranches_def)
  qed
  show ?thesis
    using tranche_sum_check_warns_only [OF a a', of sampleRuntime]
      tranche_sum_check_warns_only [OF b b', of sampleRuntime] a a'' as b b'' bs bn
    by (auto simp: sampleRuntime_def)
qed

section \<open>An example\<close>

text \<open>
  The text for the initial form with the name "Bond Token" and the symbol "BOND": the
  ERC-20 template with no fragment.
\<close>

lemma erc20_preview_example:
  \<open>generateContractPreview rt (initialForm\<lparr>name := ''Bond Token'', symbol := ''BOND''\<rparr>) =
     ''// SPDX-License-Identifier: MIT\<newline>'' @
     ''pragma solidity ^0.8.0;\<newline>'' @
     ''\<newline>'' @
     ''import "@openzeppelin/contracts/token/ERC20/ERC20.sol";\<newline>'' @
     ''import "@openzeppelin/contracts/access/Ownable.sol";\<newline>'' @
     ''\<newline>'' @
     ''contract BondToken is ERC20, Ownable {\<newline>'' @
     ''    constructor() ERC20("Bond Token", "BOND") {\<newline>'' @
     ''        // Initial setup\<newline>'' @
     ''        _mint(msg.sender, 1000000 * 10**18);\<newline>'' @
     ''    }\<newline>'' @
     ''}''\<close>
  by (simp add: generateContractPreview_def initialForm_def erc20Header_def erc20Imports_def
      isSpace_def optionalIntToString_def number_text)

end
